theory Spec2Isabelle
  imports Complex_Main "HOL-Library.Sublist"
begin

section \<open>Python values and exceptions\<close>

text \<open>
  The guards of \<^verbatim>\<open>privacy_protector/guards.py\<close> read loosely typed backend payloads:
  whatever \<^verbatim>\<open>json.loads\<close> or an SDK returns. A payload is therefore a value of the
  type \<open>json\<close> below: \<^verbatim>\<open>None\<close>, a bool, an unbounded int, a float, a str, a list or a
  dict with str keys (an association list in insertion order; lookup takes the first
  binding of a key, and a Python dict holds each key once).

  A Python \<^verbatim>\<open>str\<close> is a \<open>string\<close>, one \<open>char\<close> per code point, so the model covers the
  code points below 256. The payload of a float is the type parameter \<open>'f\<close>: the two float
  operations the code performs (comparison with \<^verbatim>\<open>0\<close>, addition of an int) are parameters
  of the functions that perform them.
\<close>

datatype 'f json =
    JNull
  | JBool bool
  | JInt int
  | JFloat 'f
  | JStr string
  | JList "'f json list"
  | JDict "(string \<times> 'f json) list"

text \<open>The exceptions that the modelled code can raise; an exception is the \<open>Inl\<close> of a sum.\<close>

datatype py_error =
    JSONDecodeError
  | KeyError
  | AttributeError
  | TypeError
  | IndexError
  | RecursionError
  | ValueError string

text \<open>\<^verbatim>\<open>obj.get(key, default)\<close>: only a dict has the method \<^verbatim>\<open>get\<close>.\<close>

fun py_get :: "'f json \<Rightarrow> string \<Rightarrow> 'f json \<Rightarrow> py_error + 'f json" where
  "py_get (JDict kvs) key dflt = Inr (case map_of kvs key of Some v \<Rightarrow> v | None \<Rightarrow> dflt)"
| "py_get _ key dflt = Inl AttributeError"

text \<open>
  \<^verbatim>\<open>for item in obj\<close>: a list yields its elements, a dict its keys, a str its characters
  (each a str of length one); nothing else is iterable.
\<close>

fun py_iter :: "'f json \<Rightarrow> py_error + 'f json list" where
  "py_iter (JList xs) = Inr xs"
| "py_iter (JDict kvs) = Inr (map (\<lambda>kv. JStr (fst kv)) kvs)"
| "py_iter (JStr s) = Inr (map (\<lambda>c. JStr [c]) s)"
| "py_iter _ = Inl TypeError"

text \<open>
  \<^verbatim>\<open>str.lower()\<close> on the code points below 256: the ASCII capitals and the Latin-1
  capitals (U+00C0 to U+00DE without the multiplication sign U+00D7) move up by 32.
\<close>

definition lower_char :: "char \<Rightarrow> char" where
  "lower_char c =
     (let n = (of_char c :: nat)
      in if (65 \<le> n \<and> n \<le> 90) \<or> (192 \<le> n \<and> n \<le> 222 \<and> n \<noteq> 215)
         then char_of (n + 32) else c)"

definition lower :: "string \<Rightarrow> string" where
  "lower s = map lower_char s"

text \<open>
  \<^verbatim>\<open>text.find(value)\<close>: the lowest index at which \<open>v\<close> starts in the text, or \<open>-1\<close>.
  \<open>find_from t v i\<close> scans the rest \<open>t\<close> of the text, which begins at index \<open>i\<close>.
\<close>

primrec find_from :: "string \<Rightarrow> string \<Rightarrow> nat \<Rightarrow> int" where
  "find_from [] v i = (if v = [] then int i else - 1)"
| "find_from (c # cs) v i = (if prefix v (c # cs) then int i else find_from cs v (Suc i))"

definition str_find :: "string \<Rightarrow> string \<Rightarrow> int" where
  "str_find t v = find_from t v 0"

text \<open>\<open>v\<close> occurs in \<open>t\<close> at index \<open>i\<close>.\<close>

definition occurs_at :: "string \<Rightarrow> string \<Rightarrow> nat \<Rightarrow> bool" where
  "occurs_at t v i \<longleftrightarrow> i \<le> length t \<and> prefix v (drop i t)"

section \<open>The result contract\<close>

text \<open>
  Modelled from the spec: the enumeration \<^verbatim>\<open>PIIType\<close> and the dataclass \<^verbatim>\<open>PIIMatch\<close> are
  imported from \<^verbatim>\<open>detectors.py\<close>, which is not among the sources. The members are the
  twelve categories of the spec's canonical taxonomy, under the names \<^verbatim>\<open>guards.py\<close> uses;
  the fields of a match are those of the constructor calls in \<^verbatim>\<open>guards.py\<close>. No field is
  type-checked at run time, so \<open>pii_value\<close>, \<open>pii_start\<close> and \<open>pii_end\<close> hold any value.
  The float literals \<^verbatim>\<open>0.85\<close>, \<^verbatim>\<open>0.90\<close> and \<^verbatim>\<open>0.95\<close> are the decimals they denote.
\<close>

datatype PIIType =
    NAME | EMAIL | PHONE | ADDRESS | SSN | CREDIT_CARD | DATE | IP_ADDRESS
  | DRIVER_LICENSE | PASSPORT | BANK_ACCOUNT | CUSTOM

record 'f PIIMatch =
  pii_type :: PIIType
  pii_value :: "'f json"
  pii_start :: "'f json"
  pii_end :: "'f json"
  confidence :: real

record 'f GuardResult =
  matches :: "'f PIIMatch list"
  raw_response :: "'f json option"
  model_used :: "string option"

text \<open>
  The handler \<^verbatim>\<open>except (json.JSONDecodeError, KeyError): pass\<close> of both JSON parsers:
  these two exceptions are swallowed, every other one leaves the parser.
\<close>

fun caught :: "py_error \<Rightarrow> bool" where
  "caught JSONDecodeError = True"
| "caught KeyError = True"
| "caught _ = False"

text \<open>
  \<^verbatim>\<open>json.loads(content)\<close>. The decoder is the standard library's, so it is the parameter
  \<open>loads\<close>; its argument must be a str.
\<close>

fun json_loads :: "(string \<Rightarrow> py_error + 'f json) \<Rightarrow> 'f json \<Rightarrow> py_error + 'f json" where
  "json_loads loads (JStr s) = loads s"
| "json_loads loads _ = Inl TypeError"

section \<open>LlamaGuard\<close>

definition LlamaGuard_type_map :: "(string \<times> PIIType) list" where
  "LlamaGuard_type_map =
     [(''name'', NAME), (''email'', EMAIL), (''phone'', PHONE), (''address'', ADDRESS),
      (''ssn'', SSN), (''social_security'', SSN), (''credit_card'', CREDIT_CARD),
      (''date'', DATE), (''date_of_birth'', DATE), (''dob'', DATE),
      (''ip'', IP_ADDRESS), (''ip_address'', IP_ADDRESS)]"

text \<open>\<^verbatim>\<open>type_map.get(type_str.lower(), PIIType.CUSTOM)\<close>: only a str has \<^verbatim>\<open>lower\<close>.\<close>

fun LlamaGuard_map_type :: "'f json \<Rightarrow> py_error + PIIType" where
  "LlamaGuard_map_type (JStr type_str) =
     Inr (case map_of LlamaGuard_type_map (lower type_str) of Some t \<Rightarrow> t | None \<Rightarrow> CUSTOM)"
| "LlamaGuard_map_type _ = Inl AttributeError"

text \<open>
  The body of the loop of \<^verbatim>\<open>LlamaGuard._parse_response\<close> for one item: an exception, no
  match (\<open>None\<close>), or the match to append. \<^verbatim>\<open>text.find(value)\<close> is a \<^verbatim>\<open>TypeError\<close> unless
  \<^verbatim>\<open>value\<close> is a str.
\<close>

definition LlamaGuard_item :: "string \<Rightarrow> 'f json \<Rightarrow> py_error + 'f PIIMatch option" where
  "LlamaGuard_item text item =
     (case py_get item ''type'' (JStr '''') of
        Inl e \<Rightarrow> Inl e
      | Inr type_str \<Rightarrow>
     (case LlamaGuard_map_type type_str of
        Inl e \<Rightarrow> Inl e
      | Inr ptype \<Rightarrow>
     (case py_get item ''value'' (JStr '''') of
        Inl e \<Rightarrow> Inl e
      | Inr val \<Rightarrow>
     (case val of
        JStr v \<Rightarrow>
          (let start = str_find text v
           in if start \<ge> 0
              then Inr (Some \<lparr>pii_type = ptype, pii_value = val, pii_start = JInt start,
                     pii_end = JInt (start + int (length v)), confidence = 0.85\<rparr>)
              else Inr None)
      | _ \<Rightarrow> Inl TypeError))))"

text \<open>
  A \<^verbatim>\<open>for\<close> loop that appends to \<^verbatim>\<open>matches\<close>: the list built when the loop ends, and the
  exception that ended it, if one did.
\<close>

fun run_items ::
  "('f json \<Rightarrow> py_error + 'f PIIMatch option) \<Rightarrow> 'f json list \<Rightarrow> 'f PIIMatch list
     \<Rightarrow> 'f PIIMatch list \<times> py_error option" where
  "run_items body [] ms = (ms, None)"
| "run_items body (item # items) ms =
     (case body item of
        Inl e \<Rightarrow> (ms, Some e)
      | Inr None \<Rightarrow> run_items body items ms
      | Inr (Some m) \<Rightarrow> run_items body items (ms @ [m]))"

text \<open>The statements inside \<^verbatim>\<open>try\<close> in \<^verbatim>\<open>LlamaGuard._parse_response\<close>.\<close>

definition LlamaGuard_try ::
  "(string \<Rightarrow> py_error + 'f json) \<Rightarrow> string \<Rightarrow> 'f json \<Rightarrow> 'f PIIMatch list \<times> py_error option" where
  "LlamaGuard_try loads text response =
     (case py_get response ''response'' (JStr ''[]'') of
        Inl e \<Rightarrow> ([], Some e)
      | Inr content \<Rightarrow>
     (case json_loads loads content of
        Inl e \<Rightarrow> ([], Some e)
      | Inr pii_list \<Rightarrow>
     (case py_iter pii_list of
        Inl e \<Rightarrow> ([], Some e)
      | Inr items \<Rightarrow> run_items (LlamaGuard_item text) items [])))"

text \<open>
  \<^verbatim>\<open>LlamaGuard._parse_response\<close>; \<open>model\<close> is \<^verbatim>\<open>self.model\<close>. A swallowed exception keeps
  the matches appended before it.
\<close>

definition LlamaGuard_parse_response ::
  "(string \<Rightarrow> py_error + 'f json) \<Rightarrow> string \<Rightarrow> string \<Rightarrow> 'f json \<Rightarrow> py_error + 'f GuardResult" where
  "LlamaGuard_parse_response loads model text response =
     (case LlamaGuard_try loads text response of
        (ms, Some e) \<Rightarrow>
          if caught e
          then Inr \<lparr>matches = ms, raw_response = Some response, model_used = Some model\<rparr>
          else Inl e
      | (ms, None) \<Rightarrow>
          Inr \<lparr>matches = ms, raw_response = Some response, model_used = Some model\<rparr>)"

section \<open>BedrockGuard\<close>

definition BedrockGuard_type_map :: "(string \<times> PIIType) list" where
  "BedrockGuard_type_map =
     [(''NAME'', NAME), (''EMAIL'', EMAIL), (''PHONE'', PHONE), (''ADDRESS'', ADDRESS),
      (''SSN'', SSN), (''US_SOCIAL_SECURITY_NUMBER'', SSN),
      (''CREDIT_DEBIT_NUMBER'', CREDIT_CARD), (''IP_ADDRESS'', IP_ADDRESS),
      (''DATE_TIME'', DATE), (''DRIVER_ID'', DRIVER_LICENSE),
      (''PASSPORT_NUMBER'', PASSPORT), (''BANK_ACCOUNT_NUMBER'', BANK_ACCOUNT)]"

text \<open>
  \<^verbatim>\<open>type_map.get(bedrock_type, PIIType.CUSTOM)\<close>: the key is looked up as it is. A list or
  a dict is unhashable (\<^verbatim>\<open>TypeError\<close>); any other value that is no str equals no key.
\<close>

fun BedrockGuard_map_bedrock_type :: "'f json \<Rightarrow> py_error + PIIType" where
  "BedrockGuard_map_bedrock_type (JStr bedrock_type) =
     Inr (case map_of BedrockGuard_type_map bedrock_type of Some t \<Rightarrow> t | None \<Rightarrow> CUSTOM)"
| "BedrockGuard_map_bedrock_type (JList _) = Inl TypeError"
| "BedrockGuard_map_bedrock_type (JDict _) = Inl TypeError"
| "BedrockGuard_map_bedrock_type _ = Inr CUSTOM"

text \<open>A \<^verbatim>\<open>for\<close> loop outside any \<^verbatim>\<open>try\<close>: the first exception ends the call.\<close>

fun py_for :: "('a \<Rightarrow> 's \<Rightarrow> py_error + 's) \<Rightarrow> 'a list \<Rightarrow> 's \<Rightarrow> py_error + 's" where
  "py_for body [] s = Inr s"
| "py_for body (x # xs) s =
     (case body x s of Inl e \<Rightarrow> Inl e | Inr s' \<Rightarrow> py_for body xs s')"

text \<open>The three nested loop bodies of \<^verbatim>\<open>BedrockGuard._parse_response\<close>, innermost first.\<close>

definition BedrockGuard_entity :: "'f json \<Rightarrow> 'f PIIMatch list \<Rightarrow> py_error + 'f PIIMatch list" where
  "BedrockGuard_entity entity ms =
     (case py_get entity ''type'' (JStr ''UNKNOWN'') of
        Inl e \<Rightarrow> Inl e
      | Inr entity_type \<Rightarrow>
     (case BedrockGuard_map_bedrock_type entity_type of
        Inl e \<Rightarrow> Inl e
      | Inr ptype \<Rightarrow>
     (case py_get entity ''match'' (JStr '''') of
        Inl e \<Rightarrow> Inl e
      | Inr val \<Rightarrow>
          Inr (ms @ [\<lparr>pii_type = ptype, pii_value = val, pii_start = JInt 0,
                      pii_end = JInt 0, confidence = 0.95\<rparr>]))))"

definition BedrockGuard_assessment :: "'f json \<Rightarrow> 'f PIIMatch list \<Rightarrow> py_error + 'f PIIMatch list" where
  "BedrockGuard_assessment assessment ms =
     (case py_get assessment ''sensitiveInformationPolicy'' (JDict []) of
        Inl e \<Rightarrow> Inl e
      | Inr sensitive_info \<Rightarrow>
     (case py_get sensitive_info ''piiEntities'' (JList []) of
        Inl e \<Rightarrow> Inl e
      | Inr pii_entities \<Rightarrow>
     (case py_iter pii_entities of
        Inl e \<Rightarrow> Inl e
      | Inr entities \<Rightarrow> py_for BedrockGuard_entity entities ms)))"

definition BedrockGuard_output :: "'f json \<Rightarrow> 'f PIIMatch list \<Rightarrow> py_error + 'f PIIMatch list" where
  "BedrockGuard_output output ms =
     (case py_get output ''assessments'' (JList []) of
        Inl e \<Rightarrow> Inl e
      | Inr assessments \<Rightarrow>
     (case py_iter assessments of
        Inl e \<Rightarrow> Inl e
      | Inr items \<Rightarrow> py_for BedrockGuard_assessment items ms))"

text \<open>\<^verbatim>\<open>BedrockGuard._parse_response\<close>; the text is not read.\<close>

definition BedrockGuard_parse_response :: "string \<Rightarrow> 'f json \<Rightarrow> py_error + 'f GuardResult" where
  "BedrockGuard_parse_response text response =
     (case py_get response ''outputs'' (JList []) of
        Inl e \<Rightarrow> Inl e
      | Inr outputs \<Rightarrow>
     (case py_iter outputs of
        Inl e \<Rightarrow> Inl e
      | Inr os \<Rightarrow>
     (case py_for BedrockGuard_output os [] of
        Inl e \<Rightarrow> Inl e
      | Inr ms \<Rightarrow>
          Inr \<lparr>matches = ms, raw_response = Some response,
                model_used = Some ''bedrock-guardrails''\<rparr>)))"

section \<open>PresidioGuard\<close>

definition PresidioGuard_type_map :: "(string \<times> PIIType) list" where
  "PresidioGuard_type_map =
     [(''PERSON'', NAME), (''EMAIL_ADDRESS'', EMAIL), (''PHONE_NUMBER'', PHONE),
      (''LOCATION'', ADDRESS), (''US_SSN'', SSN), (''CREDIT_CARD'', CREDIT_CARD),
      (''IP_ADDRESS'', IP_ADDRESS), (''DATE_TIME'', DATE),
      (''US_DRIVER_LICENSE'', DRIVER_LICENSE), (''US_PASSPORT'', PASSPORT),
      (''US_BANK_NUMBER'', BANK_ACCOUNT), (''IBAN_CODE'', BANK_ACCOUNT)]"

fun PresidioGuard_map_presidio_type :: "'f json \<Rightarrow> py_error + PIIType" where
  "PresidioGuard_map_presidio_type (JStr presidio_type) =
     Inr (case map_of PresidioGuard_type_map presidio_type of Some t \<Rightarrow> t | None \<Rightarrow> CUSTOM)"
| "PresidioGuard_map_presidio_type (JList _) = Inl TypeError"
| "PresidioGuard_map_presidio_type (JDict _) = Inl TypeError"
| "PresidioGuard_map_presidio_type _ = Inr CUSTOM"

section \<open>OpenAIGuard\<close>

text \<open>
  The part of the SDK's response object that the parser reads:
  \<^verbatim>\<open>response.choices[0].message.content\<close>, a str or \<^verbatim>\<open>None\<close>.
\<close>

record Message =
  content :: "string option"

record Choice =
  message :: Message

record ChatCompletion =
  choices :: "Choice list"

definition OpenAIGuard_type_map :: "(string \<times> PIIType) list" where
  "OpenAIGuard_type_map =
     [(''name'', NAME), (''email'', EMAIL), (''phone'', PHONE), (''address'', ADDRESS),
      (''ssn'', SSN), (''credit_card'', CREDIT_CARD), (''date'', DATE),
      (''ip_address'', IP_ADDRESS)]"

fun OpenAIGuard_map_type :: "'f json \<Rightarrow> py_error + PIIType" where
  "OpenAIGuard_map_type (JStr type_str) =
     Inr (case map_of OpenAIGuard_type_map (lower type_str) of Some t \<Rightarrow> t | None \<Rightarrow> CUSTOM)"
| "OpenAIGuard_map_type _ = Inl AttributeError"

text \<open>
  \<^verbatim>\<open>start >= 0\<close> and \<^verbatim>\<open>start + len(value)\<close> for whatever the item holds under \<^verbatim>\<open>start\<close>:
  defined on int, bool (an int in Python) and float, a \<^verbatim>\<open>TypeError\<close> otherwise. The float
  comparison and the float addition are the parameters \<open>ge0\<close> and \<open>fadd\<close>.
\<close>

fun py_ge0 :: "('f \<Rightarrow> bool) \<Rightarrow> 'f json \<Rightarrow> py_error + bool" where
  "py_ge0 ge0 (JInt n) = Inr (n \<ge> 0)"
| "py_ge0 ge0 (JBool b) = Inr True"
| "py_ge0 ge0 (JFloat x) = Inr (ge0 x)"
| "py_ge0 ge0 _ = Inl TypeError"

fun py_add :: "('f \<Rightarrow> int \<Rightarrow> 'f) \<Rightarrow> 'f json \<Rightarrow> int \<Rightarrow> py_error + 'f json" where
  "py_add fadd (JInt n) k = Inr (JInt (n + k))"
| "py_add fadd (JBool b) k = Inr (JInt ((if b then 1 else 0) + k))"
| "py_add fadd (JFloat x) k = Inr (JFloat (fadd x k))"
| "py_add fadd _ k = Inl TypeError"

text \<open>
  The body of the loop of \<^verbatim>\<open>OpenAIGuard._parse_response\<close> for one item. The defaults of
  both \<^verbatim>\<open>item.get\<close> calls are evaluated whether or not the key is present, so
  \<^verbatim>\<open>text.find(value)\<close>, \<^verbatim>\<open>start >= 0\<close> and the sum can raise in either case.
\<close>

definition OpenAIGuard_item ::
  "('f \<Rightarrow> bool) \<Rightarrow> ('f \<Rightarrow> int \<Rightarrow> 'f) \<Rightarrow> string \<Rightarrow> 'f json \<Rightarrow> py_error + 'f PIIMatch option" where
  "OpenAIGuard_item ge0 fadd text item =
     (case py_get item ''type'' (JStr '''') of
        Inl e \<Rightarrow> Inl e
      | Inr type_str \<Rightarrow>
     (case OpenAIGuard_map_type type_str of
        Inl e \<Rightarrow> Inl e
      | Inr ptype \<Rightarrow>
     (case py_get item ''value'' (JStr '''') of
        Inl e \<Rightarrow> Inl e
      | Inr val \<Rightarrow>
     (case val of
        JStr v \<Rightarrow>
          (case py_get item ''start'' (JInt (str_find text v)) of
             Inl e \<Rightarrow> Inl e
           | Inr start \<Rightarrow>
          (case py_ge0 ge0 start of
             Inl e \<Rightarrow> Inl e
           | Inr nonneg \<Rightarrow>
          (case (if nonneg then py_add fadd start (int (length v)) else Inr (JInt 0)) of
             Inl e \<Rightarrow> Inl e
           | Inr dflt \<Rightarrow>
          (case py_get item ''end'' dflt of
             Inl e \<Rightarrow> Inl e
           | Inr end_pos \<Rightarrow>
               if v \<noteq> [] \<and> nonneg
               then Inr (Some \<lparr>pii_type = ptype, pii_value = val, pii_start = start,
                      pii_end = end_pos, confidence = 0.90\<rparr>)
               else Inr None))))
      | _ \<Rightarrow> Inl TypeError))))"

text \<open>\<^verbatim>\<open>response.choices[0].message.content\<close>: an \<^verbatim>\<open>IndexError\<close> when there is no choice.\<close>

definition first_content :: "ChatCompletion \<Rightarrow> py_error + string option" where
  "first_content response =
     (case choices response of [] \<Rightarrow> Inl IndexError | c # _ \<Rightarrow> Inr (content (message c)))"

text \<open>
  The statements inside \<^verbatim>\<open>try\<close> in \<^verbatim>\<open>OpenAIGuard._parse_response\<close>; \<^verbatim>\<open>json.loads(None)\<close>
  is a \<^verbatim>\<open>TypeError\<close>. The inner \<^verbatim>\<open>content.get("results", content)\<close> is evaluated first.
\<close>

definition OpenAIGuard_try ::
  "(string \<Rightarrow> py_error + 'f json) \<Rightarrow> ('f \<Rightarrow> bool) \<Rightarrow> ('f \<Rightarrow> int \<Rightarrow> 'f) \<Rightarrow> string \<Rightarrow> ChatCompletion
     \<Rightarrow> 'f PIIMatch list \<times> py_error option" where
  "OpenAIGuard_try loads ge0 fadd text response =
     (case first_content response of
        Inl e \<Rightarrow> ([], Some e)
      | Inr None \<Rightarrow> ([], Some TypeError)
      | Inr (Some s) \<Rightarrow>
     (case loads s of
        Inl e \<Rightarrow> ([], Some e)
      | Inr cont \<Rightarrow>
     (case py_get cont ''results'' cont of
        Inl e \<Rightarrow> ([], Some e)
      | Inr inner \<Rightarrow>
     (case py_get cont ''pii'' inner of
        Inl e \<Rightarrow> ([], Some e)
      | Inr pii_list \<Rightarrow>
     (case pii_list of
        JList items \<Rightarrow> run_items (OpenAIGuard_item ge0 fadd text) items []
      | _ \<Rightarrow> ([], None))))))"

text \<open>
  The \<^verbatim>\<open>return\<close> statement of \<^verbatim>\<open>OpenAIGuard._parse_response\<close>: it reads
  \<^verbatim>\<open>response.choices[0].message.content\<close> once more, outside the \<^verbatim>\<open>try\<close>.
\<close>

definition OpenAIGuard_return ::
  "string \<Rightarrow> ChatCompletion \<Rightarrow> 'f PIIMatch list \<Rightarrow> py_error + 'f GuardResult" where
  "OpenAIGuard_return model response ms =
     (case first_content response of
        Inl e \<Rightarrow> Inl e
      | Inr c \<Rightarrow>
          Inr \<lparr>matches = ms,
               raw_response =
                 Some (JDict [(''content'', case c of None \<Rightarrow> JNull | Some s \<Rightarrow> JStr s)]),
               model_used = Some model\<rparr>)"

text \<open>\<^verbatim>\<open>OpenAIGuard._parse_response\<close>; \<open>model\<close> is \<^verbatim>\<open>self.model\<close>.\<close>

definition OpenAIGuard_parse_response ::
  "(string \<Rightarrow> py_error + 'f json) \<Rightarrow> ('f \<Rightarrow> bool) \<Rightarrow> ('f \<Rightarrow> int \<Rightarrow> 'f) \<Rightarrow> string \<Rightarrow> string
     \<Rightarrow> ChatCompletion \<Rightarrow> py_error + 'f GuardResult" where
  "OpenAIGuard_parse_response loads ge0 fadd model text response =
     (case OpenAIGuard_try loads ge0 fadd text response of
        (ms, Some e) \<Rightarrow>
          if caught e then OpenAIGuard_return model response ms else Inl e
      | (ms, None) \<Rightarrow> OpenAIGuard_return model response ms)"

section \<open>get\_guard\<close>

text \<open>The four guard classes a registry entry can construct.\<close>

datatype guard_class = LlamaGuard | BedrockGuard | PresidioGuard | OpenAIGuard

text \<open>The dict \<^verbatim>\<open>providers\<close>, in the order of the source: each lambda calls one class.\<close>

definition providers :: "(string \<times> guard_class) list" where
  "providers =
     [(''llama'', LlamaGuard), (''llama-guard'', LlamaGuard), (''bedrock'', BedrockGuard),
      (''aws'', BedrockGuard), (''presidio'', PresidioGuard), (''openai'', OpenAIGuard),
      (''gpt'', OpenAIGuard)]"

text \<open>
  \<^verbatim>\<open>repr\<close> of a str without quotes, backslashes or control characters (every key of
  \<open>providers\<close> is one), and \<^verbatim>\<open>repr\<close> of a list of such strs.
\<close>

definition str_repr :: "string \<Rightarrow> string" where
  "str_repr s = [CHR 0x27] @ s @ [CHR 0x27]"

fun join :: "string \<Rightarrow> string list \<Rightarrow> string" where
  "join sep [] = []"
| "join sep [x] = x"
| "join sep (x # y # ys) = x @ sep @ join sep (y # ys)"

definition list_repr :: "string list \<Rightarrow> string" where
  "list_repr xs = ''['' @ join '', '' (map str_repr xs) @ '']''"

text \<open>
  \<^verbatim>\<open>get_guard(provider, **kwargs)\<close>. The constructor calls \<^verbatim>\<open>LlamaGuard(**kwargs)\<close> and so on
  import client libraries and open clients, so they are the parameter \<open>new_guard\<close>, which
  can raise. The result is \<^verbatim>\<open>None\<close>, the constructed guard, or an exception.
\<close>

definition get_guard ::
  "(guard_class \<Rightarrow> 'kw \<Rightarrow> py_error + 'g) \<Rightarrow> string \<Rightarrow> 'kw \<Rightarrow> py_error + 'g option" where
  "get_guard new_guard provider kwargs =
     (let provider = lower provider
      in if provider \<in> set [''regex'', ''none'', '''']
         then Inr None
         else (case map_of providers provider of
                 None \<Rightarrow>
                   Inl (ValueError (''Unknown guard provider: '' @ provider @ ''. Supported: ''
                          @ list_repr (map fst providers)))
               | Some cls \<Rightarrow>
                   (case new_guard cls kwargs of
                      Inl e \<Rightarrow> Inl e
                    | Inr guard \<Rightarrow> Inr (Some guard))))"

section \<open>Notions used to state the properties\<close>

text \<open>All the indices at which \<open>v\<close> occurs in \<open>t\<close>, in increasing order.\<close>

definition occurrences :: "string \<Rightarrow> string \<Rightarrow> nat list" where
  "occurrences t v = filter (occurs_at t v) [0..<Suc (length t)]"

text \<open>
  An item without its \<^verbatim>\<open>start\<close> and \<^verbatim>\<open>end\<close> entries, and two decoded payloads that are
  the same but for these entries of their items.
\<close>

fun strip_offsets :: "'f json \<Rightarrow> 'f json" where
  "strip_offsets (JDict kvs) =
     JDict (filter (\<lambda>kv. fst kv \<noteq> ''start'' \<and> fst kv \<noteq> ''end'') kvs)"
| "strip_offsets j = j"

fun same_but_offsets :: "'f json \<Rightarrow> 'f json \<Rightarrow> bool" where
  "same_but_offsets (JList xs) (JList ys) \<longleftrightarrow> map strip_offsets xs = map strip_offsets ys"
| "same_but_offsets j1 j2 \<longleftrightarrow> j1 = j2"

text \<open>An item that has neither a \<^verbatim>\<open>start\<close> nor an \<^verbatim>\<open>end\<close> entry.\<close>

fun no_offsets :: "'f json \<Rightarrow> bool" where
  "no_offsets (JDict kvs) \<longleftrightarrow> map_of kvs ''start'' = None \<and> map_of kvs ''end'' = None"
| "no_offsets j \<longleftrightarrow> True"

text \<open>
  A match whose span is real: the value is a str that occurs in the text at \<open>pii_start\<close>,
  and \<open>pii_end\<close> is \<open>pii_start\<close> plus its length.
\<close>

definition genuine_span :: "string \<Rightarrow> 'f PIIMatch \<Rightarrow> bool" where
  "genuine_span text m \<longleftrightarrow>
     (case (pii_value m, pii_start m, pii_end m) of
        (JStr v, JInt s, JInt e) \<Rightarrow> 0 \<le> s \<and> occurs_at text v (nat s) \<and> e = s + int (length v)
      | _ \<Rightarrow> False)"

text \<open>
  A match as the local-model parser builds it: the span is the result of \<^verbatim>\<open>find\<close> on the
  value, and the confidence is 0.85.
\<close>

definition searched_span :: "string \<Rightarrow> 'f PIIMatch \<Rightarrow> bool" where
  "searched_span text m \<longleftrightarrow>
     (case pii_value m of
        JStr v \<Rightarrow> pii_start m = JInt (str_find text v) \<and>
                  pii_end m = JInt (str_find text v + int (length v)) \<and>
                  confidence m = 0.85
      | _ \<Rightarrow> False)"

text \<open>
  An item of the local model's array that is an object whose \<^verbatim>\<open>type\<close> and \<^verbatim>\<open>value\<close> are
  each a str or missing.
\<close>

fun str_or_missing :: "'f json option \<Rightarrow> bool" where
  "str_or_missing None \<longleftrightarrow> True"
| "str_or_missing (Some (JStr s)) \<longleftrightarrow> True"
| "str_or_missing (Some j) \<longleftrightarrow> False"

fun plain_item :: "'f json \<Rightarrow> bool" where
  "plain_item (JDict kvs) \<longleftrightarrow>
     str_or_missing (map_of kvs ''type'') \<and> str_or_missing (map_of kvs ''value'')"
| "plain_item j \<longleftrightarrow> False"

text \<open>A match that carries the span \<open>(0, 0)\<close>.\<close>

definition no_span :: "'f PIIMatch \<Rightarrow> bool" where
  "no_span m \<longleftrightarrow> pii_start m = JInt 0 \<and> pii_end m = JInt 0"

text \<open>
  The entities of a managed-cloud payload, in the words of the spec: the payload is walked
  along \<^verbatim>\<open>outputs\<close>, \<^verbatim>\<open>assessments\<close>, \<^verbatim>\<open>sensitiveInformationPolicy\<close> and \<^verbatim>\<open>piiEntities\<close>, and
  a missing key stands for no entity at that level. \<open>field_or\<close> reads a key of an object
  with a default; \<open>as_list\<close> and \<open>as_dict\<close> read a value as a list or an object.
\<close>

definition field_or :: "(string \<times> 'f json) list \<Rightarrow> string \<Rightarrow> 'f json \<Rightarrow> 'f json" where
  "field_or kvs key dflt = (case map_of kvs key of Some v \<Rightarrow> v | None \<Rightarrow> dflt)"

fun as_list :: "'f json \<Rightarrow> 'f json list" where
  "as_list (JList xs) = xs"
| "as_list j = []"

fun as_dict :: "'f json \<Rightarrow> (string \<times> 'f json) list" where
  "as_dict (JDict kvs) = kvs"
| "as_dict j = []"

definition entities_of_assessment :: "'f json \<Rightarrow> 'f json list" where
  "entities_of_assessment assessment =
     as_list (field_or
       (as_dict (field_or (as_dict assessment) ''sensitiveInformationPolicy'' (JDict [])))
       ''piiEntities'' (JList []))"

definition entities_of_output :: "'f json \<Rightarrow> 'f json list" where
  "entities_of_output output =
     concat (map entities_of_assessment
       (as_list (field_or (as_dict output) ''assessments'' (JList []))))"

definition bedrock_entities :: "'f json \<Rightarrow> 'f json list" where
  "bedrock_entities response =
     concat (map entities_of_output
       (as_list (field_or (as_dict response) ''outputs'' (JList []))))"

text \<open>
  The match that stands for one entity: the category of its \<^verbatim>\<open>type\<close>, the value under
  \<^verbatim>\<open>match\<close> (the empty str when there is none), the span \<open>(0, 0)\<close>, confidence 0.95.
\<close>

definition entity_match :: "'f json \<Rightarrow> 'f PIIMatch" where
  "entity_match entity =
     \<lparr>pii_type =
        (case BedrockGuard_map_bedrock_type
                (field_or (as_dict entity) ''type'' (JStr ''UNKNOWN'')) of
           Inr t \<Rightarrow> t | Inl e \<Rightarrow> CUSTOM),
      pii_value = field_or (as_dict entity) ''match'' (JStr []),
      pii_start = JInt 0, pii_end = JInt 0, confidence = 0.95\<rparr>"

text \<open>
  A managed-cloud payload of the documented shape, in which any of the four keys may be
  missing: what is present under \<^verbatim>\<open>outputs\<close>, \<^verbatim>\<open>assessments\<close> and \<^verbatim>\<open>piiEntities\<close> is a list of
  objects, what is present under \<^verbatim>\<open>sensitiveInformationPolicy\<close> is an object, and the
  \<^verbatim>\<open>type\<close> of an entity, when present, is neither a list nor an object.
\<close>

fun listed :: "('f json \<Rightarrow> bool) \<Rightarrow> 'f json option \<Rightarrow> bool" where
  "listed ok None \<longleftrightarrow> True"
| "listed ok (Some (JList xs)) \<longleftrightarrow> list_all ok xs"
| "listed ok (Some j) \<longleftrightarrow> False"

fun hashable :: "'f json \<Rightarrow> bool" where
  "hashable (JList xs) \<longleftrightarrow> False"
| "hashable (JDict kvs) \<longleftrightarrow> False"
| "hashable j \<longleftrightarrow> True"

fun entity_ok :: "'f json \<Rightarrow> bool" where
  "entity_ok (JDict kvs) \<longleftrightarrow> hashable (field_or kvs ''type'' (JStr ''UNKNOWN''))"
| "entity_ok j \<longleftrightarrow> False"

fun policy_ok :: "'f json option \<Rightarrow> bool" where
  "policy_ok None \<longleftrightarrow> True"
| "policy_ok (Some (JDict kvs)) \<longleftrightarrow> listed entity_ok (map_of kvs ''piiEntities'')"
| "policy_ok (Some j) \<longleftrightarrow> False"

fun assessment_ok :: "'f json \<Rightarrow> bool" where
  "assessment_ok (JDict kvs) \<longleftrightarrow> policy_ok (map_of kvs ''sensitiveInformationPolicy'')"
| "assessment_ok j \<longleftrightarrow> False"

fun output_ok :: "'f json \<Rightarrow> bool" where
  "output_ok (JDict kvs) \<longleftrightarrow> listed assessment_ok (map_of kvs ''assessments'')"
| "output_ok j \<longleftrightarrow> False"

fun response_ok :: "'f json \<Rightarrow> bool" where
  "response_ok (JDict kvs) \<longleftrightarrow> listed output_ok (map_of kvs ''outputs'')"
| "response_ok j \<longleftrightarrow> False"

text \<open>The part of a result that does not echo the payload, and the same for an outcome.\<close>

definition verdict :: "'f GuardResult \<Rightarrow> 'f PIIMatch list \<times> string option" where
  "verdict r = (matches r, model_used r)"

definition outcome ::
  "py_error + 'f GuardResult \<Rightarrow> py_error + 'f PIIMatch list \<times> string option" where
  "outcome x = (case x of Inl e \<Rightarrow> Inl e | Inr r \<Rightarrow> Inr (verdict r))"

section \<open>Example payloads\<close>

text \<open>
  The examples use the text of the spec's end-to-end scenario and a few JSON documents.
  \<open>sample_loads\<close> is \<^verbatim>\<open>json.loads\<close> on these documents; no example applies it to another
  string. The examples hold no float, so their float type is \<open>real\<close> with exact
  operations.
\<close>

definition sample_text :: string where
  "sample_text = ''Contact John Smith at john@example.com''"

definition john :: "real json" where
  "john = JDict [(''type'', JStr ''name''), (''value'', JStr ''John Smith'')]"

definition sample_loads :: "string \<Rightarrow> py_error + real json" where
  "sample_loads s =
     (if s = ''[{\"type\": \"name\", \"value\": \"John Smith\"}, {\"type\": \"email\", \"value\": \"john@example.com\"}]''
      then Inr (JList [john,
             JDict [(''type'', JStr ''email''), (''value'', JStr ''john@example.com'')]])
      else if s = ''[{\"type\": \"name\", \"value\": \"John Smith\"}, {\"type\": \"email\"}]''
      then Inr (JList [john, JDict [(''type'', JStr ''email'')]])
      else if s = ''[{\"type\": \"name\", \"value\": \"John Smith\"}]''
      then Inr (JList [john])
      else if s = ''{\"type\": \"name\", \"value\": \"John Smith\"}''
      then Inr john
      else if s = ''[{\"type\": \"name\", \"value\": \"Jane Doe\"}]''
      then Inr (JList [JDict [(''type'', JStr ''name''), (''value'', JStr ''Jane Doe'')]])
      else if s = ''[{\"type\": \"name\", \"value\": \"John Smith\", \"start\": 8, \"end\": 18}]''
      then Inr (JList [JDict [(''type'', JStr ''name''), (''value'', JStr ''John Smith''),
             (''start'', JInt 8), (''end'', JInt 18)]])
      else if s = ''[{\"type\": \"name\", \"value\": \"John Smith\", \"start\": 0, \"end\": 4}]''
      then Inr (JList [JDict [(''type'', JStr ''name''), (''value'', JStr ''John Smith''),
             (''start'', JInt 0), (''end'', JInt 4)]])
      else if s = ''{\"pii\": [{\"type\": \"name\", \"value\": \"John Smith\"}]}''
      then Inr (JDict [(''pii'', JList [john])])
      else Inl JSONDecodeError)"

definition sample_ge0 :: "real \<Rightarrow> bool" where
  "sample_ge0 x \<longleftrightarrow> 0 \<le> x"

definition sample_fadd :: "real \<Rightarrow> int \<Rightarrow> real" where
  "sample_fadd x k = x + of_int k"

text \<open>A chat completion with one choice whose message holds \<open>s\<close>.\<close>

definition completion :: "string \<Rightarrow> ChatCompletion" where
  "completion s = \<lparr>choices = [\<lparr>message = \<lparr>content = Some s\<rparr>\<rparr>]\<rparr>"

text \<open>
  A payload with an output that has no assessments, and an output with three assessments:
  one without policy, one whose policy has no entities, and one with two entities, the
  second without \<^verbatim>\<open>type\<close> and \<^verbatim>\<open>match\<close>.
\<close>

definition bedrock_sample :: "real json" where
  "bedrock_sample =
     JDict [(''outputs'', JList
       [JDict [(''text'', JStr ''masked'')],
        JDict [(''assessments'', JList
          [JDict [(''topicPolicy'', JDict [])],
           JDict [(''sensitiveInformationPolicy'', JDict [(''regexes'', JList [])])],
           JDict [(''sensitiveInformationPolicy'', JDict [(''piiEntities'', JList
             [JDict [(''type'', JStr ''EMAIL''), (''match'', JStr ''john@example.com'')],
              JDict [(''action'', JStr ''ANONYMIZED'')]])])]])]])]"

text \<open>The same payload without \<^verbatim>\<open>outputs\<close>.\<close>

definition bedrock_empty :: "real json" where
  "bedrock_empty = JDict [(''usage'', JNull)]"

section \<open>Substring search\<close>

lemma occurs_at_Nil: "occurs_at [] v k \<longleftrightarrow> v = [] \<and> k = 0"
  by (auto simp: occurs_at_def)

lemma occurs_at_0: "occurs_at t v 0 \<longleftrightarrow> prefix v t"
  by (simp add: occurs_at_def)

lemma occurs_at_Suc: "occurs_at (c # cs) v (Suc k) \<longleftrightarrow> occurs_at cs v k"
  by (simp add: occurs_at_def)

lemma occurrences_Nil: "occurrences [] v = (if v = [] then [0] else [])"
  by (simp add: occurrences_def occurs_at_Nil)

lemma occurrences_Cons:
  "occurrences (c # cs) v = (if prefix v (c # cs) then [0] else []) @ map Suc (occurrences cs v)"
proof -
  have "[0..<Suc (Suc (length cs))] = 0 # [Suc 0..<Suc (Suc (length cs))]"
    by (rule upt_conv_Cons) simp
  also have "[Suc 0..<Suc (Suc (length cs))] = map Suc [0..<Suc (length cs)]"
    by (rule map_Suc_upt [symmetric])
  finally show ?thesis
    by (simp add: occurrences_def filter_map comp_def occurs_at_Suc occurs_at_0 del: upt_Suc)
qed

text \<open>\<^verbatim>\<open>find\<close> returns the first occurrence, and \<open>-1\<close> when there is none.\<close>

lemma find_from_occurrences:
  "find_from t v i = (case occurrences t v of [] \<Rightarrow> - 1 | k # _ \<Rightarrow> int (i + k))"
proof (induction t arbitrary: i)
  case Nil
  show ?case by (simp add: occurrences_Nil)
next
  case (Cons c cs)
  show ?case
    by (simp add: occurrences_Cons Cons.IH split: list.splits)
qed

lemma str_find_occurrences:
  "str_find t v = (case occurrences t v of [] \<Rightarrow> - 1 | k # _ \<Rightarrow> int k)"
  by (simp add: str_find_def find_from_occurrences split: list.splits)

lemma set_occurrences: "k \<in> set (occurrences t v) \<longleftrightarrow> occurs_at t v k"
  by (auto simp: occurrences_def occurs_at_def less_Suc_eq_le simp del: upt_Suc)

text \<open>\<open>occurs_at\<close> and \<open>occurrences\<close> against the library's notion of a sublist.\<close>

lemma occurs_at_iff: "occurs_at t v k \<longleftrightarrow> (\<exists>ps ss. t = ps @ v @ ss \<and> length ps = k)"
proof
  assume "occurs_at t v k"
  then obtain ss where "k \<le> length t" "drop k t = v @ ss"
    by (auto simp: occurs_at_def prefix_def)
  then have "t = take k t @ v @ ss \<and> length (take k t) = k"
    by (metis append_take_drop_id length_take min.absorb2)
  then show "\<exists>ps ss. t = ps @ v @ ss \<and> length ps = k" by blast
next
  assume "\<exists>ps ss. t = ps @ v @ ss \<and> length ps = k"
  then show "occurs_at t v k" by (auto simp: occurs_at_def)
qed

lemma sublist_occurrences: "sublist v t \<longleftrightarrow> occurrences t v \<noteq> []"
proof -
  have "sublist v t \<longleftrightarrow> (\<exists>k. occurs_at t v k)"
    by (auto simp: sublist_def occurs_at_iff)
  also have "\<dots> \<longleftrightarrow> (\<exists>k. k \<in> set (occurrences t v))"
    by (simp add: set_occurrences)
  also have "\<dots> \<longleftrightarrow> occurrences t v \<noteq> []"
    by (cases "occurrences t v") auto
  finally show ?thesis .
qed

lemma str_find_absent: "\<not> sublist v t \<Longrightarrow> str_find t v = - 1"
  by (simp add: str_find_occurrences sublist_occurrences)

lemma str_find_present: "str_find t v \<ge> 0 \<Longrightarrow> occurs_at t v (nat (str_find t v))"
proof -
  assume "str_find t v \<ge> 0"
  then obtain k ks where k: "occurrences t v = k # ks"
    by (cases "occurrences t v") (auto simp: str_find_occurrences)
  then have "k \<in> set (occurrences t v)" by simp
  then have "occurs_at t v k" by (simp only: set_occurrences)
  with k show ?thesis by (simp add: str_find_occurrences)
qed

section \<open>The loop that collects matches\<close>

lemma run_items_append:
  "run_items body (xs @ ys) ms =
     (case run_items body xs ms of (ms', None) \<Rightarrow> run_items body ys ms' | r \<Rightarrow> r)"
  by (induction xs arbitrary: ms) (auto split: sum.splits option.splits)

lemma run_items_skip:
  "body item = Inr None \<Longrightarrow> run_items body (xs @ item # ys) ms = run_items body (xs @ ys) ms"
  by (simp add: run_items_append split: prod.splits option.splits)

lemma run_items_mono:
  "run_items body items ms = (ms', r) \<Longrightarrow> \<exists>zs. ms' = ms @ zs"
proof (induction items arbitrary: ms)
  case Nil
  then show ?case by simp
next
  case (Cons x xs)
  then show ?case
    by (fastforce split: sum.splits option.splits)
qed

lemma run_items_emits:
  "run_items body items ms = (ms', None) \<Longrightarrow> item \<in> set items \<Longrightarrow> body item = Inr (Some m)
     \<Longrightarrow> m \<in> set ms'"
proof (induction items arbitrary: ms)
  case Nil
  then show ?case by simp
next
  case (Cons x xs)
  show ?case
  proof (cases "item = x")
    case True
    with Cons.prems have "run_items body xs (ms @ [m]) = (ms', None)" by simp
    then obtain zs where "ms' = (ms @ [m]) @ zs" using run_items_mono by blast
    then show ?thesis by simp
  next
    case False
    with Cons.prems have "item \<in> set xs" by simp
    with Cons.IH Cons.prems show ?thesis
      by (auto split: sum.splits option.splits)
  qed
qed

lemma run_items_invariant:
  assumes "run_items body items ms = (ms', r)"
    and "\<forall>m \<in> set ms. P m"
    and "\<forall>item \<in> set items. \<forall>m. body item = Inr (Some m) \<longrightarrow> P m"
  shows "\<forall>m \<in> set ms'. P m"
  using assms
proof (induction items arbitrary: ms)
  case Nil
  then show ?case by simp
next
  case (Cons x xs)
  have rest: "\<forall>item \<in> set xs. \<forall>m. body item = Inr (Some m) \<longrightarrow> P m"
    using Cons.prems(3) by simp
  show ?case
  proof (cases "body x")
    case (Inl e)
    with Cons.prems(1,2) show ?thesis by simp
  next
    case (Inr o1)
    show ?thesis
    proof (cases o1)
      case None
      with Inr Cons.prems(1) have "run_items body xs ms = (ms', r)" by simp
      then show ?thesis using Cons.prems(2) rest by (rule Cons.IH)
    next
      case (Some m)
      with Inr Cons.prems(1) have run: "run_items body xs (ms @ [m]) = (ms', r)" by simp
      have "P m" using Cons.prems(3) Inr Some by simp
      with Cons.prems(2) have "\<forall>m' \<in> set (ms @ [m]). P m'" by simp
      with run show ?thesis using rest by (rule Cons.IH)
    qed
  qed
qed

lemma LlamaGuard_item_not_caught: "LlamaGuard_item text item = Inl e \<Longrightarrow> \<not> caught e"
  by (cases item)
    (auto simp: LlamaGuard_item_def Let_def split: sum.splits json.splits if_splits
       elim!: LlamaGuard_map_type.elims)

lemma run_items_error:
  "run_items body items ms = (ms', Some e) \<Longrightarrow> \<exists>item \<in> set items. body item = Inl e"
  by (induction items arbitrary: ms) (auto split: sum.splits option.splits)

lemma LlamaGuard_item_str:
  assumes "map_of kvs ''value'' = Some (JStr V)"
    and "LlamaGuard_map_type (case map_of kvs ''type'' of Some x \<Rightarrow> x | None \<Rightarrow> JStr '''') = Inr ptype"
  shows "LlamaGuard_item T (JDict kvs) =
     (if str_find T V \<ge> 0
      then Inr (Some \<lparr>pii_type = ptype, pii_value = JStr V, pii_start = JInt (str_find T V),
                  pii_end = JInt (str_find T V + int (length V)), confidence = 0.85\<rparr>)
      else Inr None)"
  using assms by (simp add: LlamaGuard_item_def Let_def)

section \<open>Span resolution in the local-model parser\<close>

lemma run_items_total:
  assumes "\<And>item. item \<in> set items \<Longrightarrow> \<exists>r. body item = Inr r"
  shows "\<exists>ms'. run_items body items ms = (ms', None)"
  using assms
proof (induction items arbitrary: ms)
  case Nil
  then show ?case by simp
next
  case (Cons x xs)
  have "\<exists>r. body x = Inr r"
    by (rule Cons.prems) simp
  then obtain r where r: "body x = Inr r" ..
  have rest: "\<exists>ms'. run_items body xs ms0 = (ms', None)" for ms0
  proof (rule Cons.IH)
    fix item
    assume "item \<in> set xs"
    then have "item \<in> set (x # xs)" by simp
    then show "\<exists>r. body item = Inr r" by (rule Cons.prems)
  qed
  show ?case
  proof (cases r)
    case None
    with r rest [of ms] show ?thesis by simp
  next
    case (Some m)
    with r rest [of "ms @ [m]"] show ?thesis by simp
  qed
qed

lemma str_or_missing_cases:
  assumes "str_or_missing v"
  shows "v = None \<or> (\<exists>s. v = Some (JStr s))"
  using assms by (cases v rule: str_or_missing.cases) simp_all

lemma LlamaGuard_item_plain:
  assumes "plain_item item"
  shows "\<exists>r. LlamaGuard_item T item = Inr r"
proof (cases item)
  case (JDict kvs)
  with assms have "str_or_missing (map_of kvs ''type'')" and "str_or_missing (map_of kvs ''value'')"
    by simp_all
  then have "(map_of kvs ''type'' = None \<or> (\<exists>s. map_of kvs ''type'' = Some (JStr s)))"
    and "(map_of kvs ''value'' = None \<or> (\<exists>s. map_of kvs ''value'' = Some (JStr s)))"
    by (simp_all add: str_or_missing_cases)
  with JDict show ?thesis
    by (auto simp: LlamaGuard_item_def Let_def)
qed (use assms in simp_all)

text \<open>
  C1. Let the value \<open>V\<close> occur exactly once in the text \<open>T\<close>, at index \<open>i\<close>, and let an
  item carry \<open>V\<close> under \<^verbatim>\<open>value\<close> and a type that maps to the category \<open>ptype\<close>. The loop
  body of \<^verbatim>\<open>LlamaGuard._parse_response\<close>, which reads no offsets, yields for this item the
  match \<open>m\<close> with \<open>start = i\<close> and \<open>end = i + len(V)\<close>. When the payload holds under
  \<^verbatim>\<open>response\<close> a document that decodes to a list with this item in it, all of whose items
  are objects with a str or nothing under \<^verbatim>\<open>type\<close> and \<^verbatim>\<open>value\<close>, the parser returns a result,
  and \<open>m\<close> is among its matches.
\<close>

theorem C1_span_resolution:
  assumes "occurrences T V = [i]"
    and "map_of kvs ''value'' = Some (JStr V)"
    and "LlamaGuard_map_type (case map_of kvs ''type'' of Some x \<Rightarrow> x | None \<Rightarrow> JStr []) = Inr ptype"
    and "m = \<lparr>pii_type = ptype, pii_value = JStr V, pii_start = JInt (int i),
               pii_end = JInt (int i + int (length V)), confidence = 0.85\<rparr>"
    and "map_of rkvs ''response'' = Some (JStr c)"
    and "loads c = Inr (JList items)"
    and "JDict kvs \<in> set items"
    and "\<forall>item \<in> set items. plain_item item"
  shows "LlamaGuard_item T (JDict kvs) = Inr (Some m) \<and>
    (\<exists>r. LlamaGuard_parse_response loads model T (JDict rkvs) = Inr r \<and>
         m \<in> set (matches r) \<and> raw_response r = Some (JDict rkvs) \<and>
         model_used r = Some model)"
proof -
  have find: "str_find T V = int i"
    using assms(1) by (simp add: str_find_occurrences)
  have item: "LlamaGuard_item T (JDict kvs) = Inr (Some m)"
    using assms(2-4) by (simp add: LlamaGuard_item_str find)
  have tr: "LlamaGuard_try loads T (JDict rkvs) = run_items (LlamaGuard_item T) items []"
    using assms(5,6) by (simp add: LlamaGuard_try_def)
  have "\<exists>ms. run_items (LlamaGuard_item T) items [] = (ms, None)"
  proof (rule run_items_total)
    fix x
    assume "x \<in> set items"
    with assms(8) have "plain_item x" by simp
    then show "\<exists>r. LlamaGuard_item T x = Inr r" by (rule LlamaGuard_item_plain)
  qed
  then obtain ms where run: "run_items (LlamaGuard_item T) items [] = (ms, None)" ..
  then have "m \<in> set ms" using assms(7) item by (rule run_items_emits)
  moreover have "LlamaGuard_parse_response loads model T (JDict rkvs) =
      Inr \<lparr>matches = ms, raw_response = Some (JDict rkvs), model_used = Some model\<rparr>"
    using tr run by (simp add: LlamaGuard_parse_response_def)
  ultimately show ?thesis using item by simp
qed

theorem C1_witness:
  "occurrences sample_text ''John Smith'' = [8] \<and>
   LlamaGuard_item sample_text john =
     Inr (Some \<lparr>pii_type = NAME, pii_value = JStr ''John Smith'', pii_start = JInt 8,
                 pii_end = JInt 18, confidence = 0.85\<rparr>) \<and>
   (\<exists>r. LlamaGuard_parse_response sample_loads ''llama-guard3'' sample_text
          (JDict [(''response'', JStr ''[{\"type\": \"name\", \"value\": \"John Smith\"}, {\"type\": \"email\", \"value\": \"john@example.com\"}]'')])
          = Inr r \<and>
        \<lparr>pii_type = NAME, pii_value = JStr ''John Smith'', pii_start = JInt 8,
          pii_end = JInt 18, confidence = 0.85\<rparr> \<in> set (matches r) \<and>
        model_used r = Some ''llama-guard3'')"
proof -
  have h1: "occurrences sample_text ''John Smith'' = [8]"
    by (simp add: occurrences_def occurs_at_def sample_text_def)
  have h2: "map_of [(''type'', JStr ''name''), (''value'', JStr ''John Smith'')] ''value''
      = Some (JStr ''John Smith'' :: real json)"
    by simp
  have h3: "LlamaGuard_map_type
      (case map_of [(''type'', JStr ''name''), (''value'', JStr ''John Smith'' :: real json)] ''type''
       of Some x \<Rightarrow> x | None \<Rightarrow> JStr []) = Inr NAME"
    by (simp add: lower_def lower_char_def LlamaGuard_type_map_def)
  have h5: "map_of [(''response'', JStr ''[{\"type\": \"name\", \"value\": \"John Smith\"}, {\"type\": \"email\", \"value\": \"john@example.com\"}]'' :: real json)]
      ''response''
      = Some (JStr ''[{\"type\": \"name\", \"value\": \"John Smith\"}, {\"type\": \"email\", \"value\": \"john@example.com\"}]'')"
    by simp
  have h6: "sample_loads ''[{\"type\": \"name\", \"value\": \"John Smith\"}, {\"type\": \"email\", \"value\": \"john@example.com\"}]''
      = Inr (JList [JDict [(''type'', JStr ''name''), (''value'', JStr ''John Smith'')],
          JDict [(''type'', JStr ''email''), (''value'', JStr ''john@example.com'')]])"
    by (simp add: sample_loads_def john_def)
  have h7: "JDict [(''type'', JStr ''name''), (''value'', JStr ''John Smith'' :: real json)]
      \<in> set [JDict [(''type'', JStr ''name''), (''value'', JStr ''John Smith'')],
          JDict [(''type'', JStr ''email''), (''value'', JStr ''john@example.com'')]]"
    by simp
  have h8: "\<forall>item \<in> set [JDict [(''type'', JStr ''name''), (''value'', JStr ''John Smith'' :: real json)],
          JDict [(''type'', JStr ''email''), (''value'', JStr ''john@example.com'')]].
      plain_item item"
    by simp
  from C1_span_resolution [where loads = sample_loads and model = "''llama-guard3''", OF h1 h2 h3 refl h5 h6 h7 h8] h1
  show ?thesis
    by (auto simp: john_def)
qed

text \<open>The end-to-end scenario of the spec: two items without offsets, two matches.\<close>

lemma end_to_end:
  "LlamaGuard_parse_response sample_loads ''llama-guard3'' sample_text
     (JDict [(''response'', JStr ''[{\"type\": \"name\", \"value\": \"John Smith\"}, {\"type\": \"email\", \"value\": \"john@example.com\"}]'')]) =
   Inr \<lparr>matches =
          [\<lparr>pii_type = NAME, pii_value = JStr ''John Smith'', pii_start = JInt 8,
            pii_end = JInt 18, confidence = 0.85\<rparr>,
           \<lparr>pii_type = EMAIL, pii_value = JStr ''john@example.com'', pii_start = JInt 22,
            pii_end = JInt 38, confidence = 0.85\<rparr>],
        raw_response = Some (JDict [(''response'', JStr ''[{\"type\": \"name\", \"value\": \"John Smith\"}, {\"type\": \"email\", \"value\": \"john@example.com\"}]'')]),
        model_used = Some ''llama-guard3''\<rparr>"
  by (simp add: LlamaGuard_parse_response_def LlamaGuard_try_def sample_loads_def john_def
      LlamaGuard_item_def str_find_def sample_text_def lower_def lower_char_def
      LlamaGuard_type_map_def)

section \<open>Values that do not occur in the text\<close>

lemma LlamaGuard_item_absent:
  assumes "\<not> sublist V T"
    and "map_of kvs ''value'' = Some (JStr V)"
    and "(case map_of kvs ''type'' of Some x \<Rightarrow> x | None \<Rightarrow> JStr '''') = JStr ty"
  shows "LlamaGuard_item T (JDict kvs) = Inr None"
  using assms by (simp add: LlamaGuard_item_def Let_def str_find_absent)

lemma OpenAIGuard_item_absent:
  assumes "\<not> sublist V T"
    and "map_of kvs ''value'' = Some (JStr V)"
    and "(case map_of kvs ''type'' of Some x \<Rightarrow> x | None \<Rightarrow> JStr '''') = JStr ty"
    and "map_of kvs ''start'' = None"
  shows "OpenAIGuard_item ge0 fadd T (JDict kvs) = Inr None"
  using assms by (simp add: OpenAIGuard_item_def str_find_absent)

lemma LlamaGuard_item_genuine:
  assumes "LlamaGuard_item T item = Inr (Some m)"
  shows "genuine_span T m"
proof (cases item)
  case (JDict kvs)
  with assms show ?thesis
    by (auto simp: LlamaGuard_item_def Let_def genuine_span_def str_find_present
        split: sum.splits json.splits if_splits)
qed (use assms in \<open>simp_all add: LlamaGuard_item_def\<close>)

lemma OpenAIGuard_item_genuine:
  assumes "OpenAIGuard_item ge0 fadd T item = Inr (Some m)" and "no_offsets item"
  shows "genuine_span T m"
proof (cases item)
  case (JDict kvs)
  with assms show ?thesis
    by (auto simp: OpenAIGuard_item_def genuine_span_def str_find_present
        split: sum.splits json.splits if_splits)
qed (use assms in \<open>simp_all add: OpenAIGuard_item_def\<close>)

lemma LlamaGuard_try_genuine:
  assumes "LlamaGuard_try loads T response = (ms, raised)"
  shows "\<forall>m \<in> set ms. genuine_span T m"
proof (cases "\<exists>items. LlamaGuard_try loads T response = run_items (LlamaGuard_item T) items []")
  case True
  then obtain items where "run_items (LlamaGuard_item T) items [] = (ms, raised)"
    using assms by auto
  then show ?thesis
    by (rule run_items_invariant) (auto intro: LlamaGuard_item_genuine)
next
  case False
  then have "fst (LlamaGuard_try loads T response) = []"
    by (auto simp: LlamaGuard_try_def split: sum.splits)
  with assms show ?thesis by simp
qed

lemma LlamaGuard_parse_matches:
  assumes "LlamaGuard_parse_response loads model T response = Inr r"
  shows "matches r = fst (LlamaGuard_try loads T response)"
  using assms
  by (auto simp: LlamaGuard_parse_response_def split: prod.splits option.splits if_splits)

lemma OpenAIGuard_return_matches:
  "OpenAIGuard_return model response ms = Inr r \<Longrightarrow> matches r = ms"
  by (auto simp: OpenAIGuard_return_def split: sum.splits)

lemma OpenAIGuard_parse_matches:
  assumes "OpenAIGuard_parse_response loads ge0 fadd model T response = Inr r"
  shows "matches r = fst (OpenAIGuard_try loads ge0 fadd T response)"
  using assms
  by (auto simp: OpenAIGuard_parse_response_def OpenAIGuard_return_matches
      split: prod.splits option.splits if_splits)

lemma OpenAIGuard_try_genuine:
  assumes "OpenAIGuard_try loads ge0 fadd T response = (ms, raised)"
    and "first_content response = Inr (Some s)"
    and "loads s = Inr (JDict ckvs)"
    and "\<forall>k items. map_of ckvs k = Some (JList items) \<longrightarrow> (\<forall>item \<in> set items. no_offsets item)"
  shows "\<forall>m \<in> set ms. genuine_span T m"
proof -
  define pii_list where
    "pii_list = (case map_of ckvs ''pii'' of Some v \<Rightarrow> v
       | None \<Rightarrow> (case map_of ckvs ''results'' of Some v \<Rightarrow> v | None \<Rightarrow> JDict ckvs))"
  have tr: "OpenAIGuard_try loads ge0 fadd T response =
      (case pii_list of
         JList items \<Rightarrow> run_items (OpenAIGuard_item ge0 fadd T) items []
       | _ \<Rightarrow> ([], None))"
    using assms(2,3) by (simp add: OpenAIGuard_try_def pii_list_def)
  show ?thesis
  proof (cases pii_list)
    case (JList items)
    then have "\<exists>k. map_of ckvs k = Some (JList items)"
      by (auto simp: pii_list_def split: option.splits)
    with assms(4) have no: "\<forall>item \<in> set items. no_offsets item" by blast
    from tr JList assms(1) have "run_items (OpenAIGuard_item ge0 fadd T) items [] = (ms, raised)"
      by simp
    then show ?thesis
      by (rule run_items_invariant) (use no in \<open>auto intro: OpenAIGuard_item_genuine\<close>)
  qed (use tr assms(1) in auto)
qed


text \<open>
  C2. Let the non-empty value \<open>V\<close> occur nowhere in the text \<open>T\<close>, and let an item carry
  \<open>V\<close> under \<^verbatim>\<open>value\<close> and have a str, or nothing, under \<^verbatim>\<open>type\<close>. In the local-model
  parser the loop body yields no match and no exception for the item, and the loop runs as
  if the item were not in the list; the same holds in the hosted-LLM parser when the item
  has no \<^verbatim>\<open>start\<close>. No span is fabricated: every match of a result of the local-model
  parser, and every match of a result of the hosted-LLM parser on a payload whose items
  carry no offsets, has a value that occurs in \<open>T\<close> at its span, so none has the value \<open>V\<close>.
\<close>

theorem C2_unresolvable_dropped:
  fixes kvs :: "(string \<times> 'f json) list"
  assumes "V \<noteq> []" and "\<not> sublist V T"
    and "map_of kvs ''value'' = Some (JStr V)"
    and "(case map_of kvs ''type'' of Some x \<Rightarrow> x | None \<Rightarrow> JStr '''') = JStr ty"
  shows "LlamaGuard_item T (JDict kvs) = Inr None \<and>
    run_items (LlamaGuard_item T) (xs @ JDict kvs # ys) ms
      = run_items (LlamaGuard_item T) (xs @ ys) ms \<and>
    (map_of kvs ''start'' = None \<longrightarrow>
       OpenAIGuard_item ge0 fadd T (JDict kvs) = Inr None \<and>
       run_items (OpenAIGuard_item ge0 fadd T) (xs @ JDict kvs # ys) ms
         = run_items (OpenAIGuard_item ge0 fadd T) (xs @ ys) ms) \<and>
    (\<forall>(loads :: string \<Rightarrow> py_error + 'f json) model response r.
       LlamaGuard_parse_response loads model T response = Inr r \<longrightarrow>
       (\<forall>m \<in> set (matches r). genuine_span T m \<and> pii_value m \<noteq> JStr V)) \<and>
    (\<forall>(loads :: string \<Rightarrow> py_error + 'f json) model response s ckvs r.
       first_content response = Inr (Some s) \<and> loads s = Inr (JDict ckvs) \<and>
       (\<forall>k items. map_of ckvs k = Some (JList items) \<longrightarrow> (\<forall>item \<in> set items. no_offsets item)) \<and>
       OpenAIGuard_parse_response loads ge0 fadd model T response = Inr r \<longrightarrow>
       (\<forall>m \<in> set (matches r). genuine_span T m \<and> pii_value m \<noteq> JStr V))"
proof -
  have absent: "pii_value m \<noteq> JStr V" if "genuine_span T m" for m :: "'f PIIMatch"
  proof
    assume "pii_value m = JStr V"
    with that obtain k where "occurs_at T V k"
      by (auto simp: genuine_span_def split: json.splits)
    then have "sublist V T"
      by (auto simp: occurs_at_iff sublist_def)
    with assms(2) show False by simp
  qed
  have l1: "LlamaGuard_item T (JDict kvs) = Inr None"
    using assms(2-4) by (rule LlamaGuard_item_absent)
  have l2: "run_items (LlamaGuard_item T) (xs @ JDict kvs # ys) ms
      = run_items (LlamaGuard_item T) (xs @ ys) ms"
    using l1 by (rule run_items_skip)
  have o: "OpenAIGuard_item ge0 fadd T (JDict kvs) = Inr None \<and>
       run_items (OpenAIGuard_item ge0 fadd T) (xs @ JDict kvs # ys) ms
         = run_items (OpenAIGuard_item ge0 fadd T) (xs @ ys) ms"
    if "map_of kvs ''start'' = None"
  proof -
    have "OpenAIGuard_item ge0 fadd T (JDict kvs) = Inr None"
      using assms(2-4) that by (rule OpenAIGuard_item_absent)
    then show ?thesis by (simp add: run_items_skip)
  qed
  have pl: "\<forall>m \<in> set (matches r). genuine_span T m \<and> pii_value m \<noteq> JStr V"
    if "LlamaGuard_parse_response loads model T response = Inr r"
    for loads :: "string \<Rightarrow> py_error + 'f json" and model response r
  proof -
    obtain ms' raised where tr: "LlamaGuard_try loads T response = (ms', raised)"
      by (cases "LlamaGuard_try loads T response")
    then have "\<forall>m \<in> set ms'. genuine_span T m" by (rule LlamaGuard_try_genuine)
    moreover have "matches r = ms'"
      using LlamaGuard_parse_matches [OF that] tr by simp
    ultimately show ?thesis using absent by blast
  qed
  have po: "\<forall>m \<in> set (matches r). genuine_span T m \<and> pii_value m \<noteq> JStr V"
    if "first_content response = Inr (Some s)" and "loads s = Inr (JDict ckvs)"
      and "\<forall>k items. map_of ckvs k = Some (JList items) \<longrightarrow> (\<forall>item \<in> set items. no_offsets item)"
      and "OpenAIGuard_parse_response loads ge0 fadd model T response = Inr r"
    for loads :: "string \<Rightarrow> py_error + 'f json" and model response s ckvs r
  proof -
    obtain ms' raised where tr: "OpenAIGuard_try loads ge0 fadd T response = (ms', raised)"
      by (cases "OpenAIGuard_try loads ge0 fadd T response")
    then have "\<forall>m \<in> set ms'. genuine_span T m"
      using that(1-3) by (rule OpenAIGuard_try_genuine)
    moreover have "matches r = ms'"
      using OpenAIGuard_parse_matches [OF that(4)] tr by simp
    ultimately show ?thesis using absent by blast
  qed
  from l1 l2 o pl po show ?thesis by blast
qed

theorem C2_witness:
  "\<not> sublist ''Jane Doe'' sample_text \<and>
   LlamaGuard_item sample_text
     (JDict [(''type'', JStr ''name''), (''value'', JStr ''Jane Doe'' :: real json)]) = Inr None \<and>
   run_items (LlamaGuard_item sample_text)
     [john, JDict [(''type'', JStr ''name''), (''value'', JStr ''Jane Doe'')]] []
     = run_items (LlamaGuard_item sample_text) [john] [] \<and>
   OpenAIGuard_item sample_ge0 sample_fadd sample_text
     (JDict [(''type'', JStr ''name''), (''value'', JStr ''Jane Doe'')]) = Inr None"
proof -
  have h1: "''Jane Doe'' \<noteq> []" by simp
  have h2: "\<not> sublist ''Jane Doe'' sample_text"
    by (simp add: sublist_occurrences occurrences_def occurs_at_def sample_text_def)
  have h3: "map_of [(''type'', JStr ''name''), (''value'', JStr ''Jane Doe'' :: real json)] ''value''
      = Some (JStr ''Jane Doe'')"
    by simp
  have h4: "(case map_of [(''type'', JStr ''name''), (''value'', JStr ''Jane Doe'' :: real json)] ''type''
      of Some x \<Rightarrow> x | None \<Rightarrow> JStr '''') = JStr ''name''"
    by simp
  from C2_unresolvable_dropped [OF h1 h2 h3 h4, of "[john]" "[]" "[]" sample_ge0 sample_fadd] h2
  show ?thesis by simp
qed

section \<open>Malformed payloads\<close>

text \<open>
  The handler of both JSON parsers swallows \<^verbatim>\<open>JSONDecodeError\<close> and \<^verbatim>\<open>KeyError\<close> only.
  Content that is no JSON at all is swallowed: the result has no match.
\<close>

lemma LlamaGuard_not_json:
  "LlamaGuard_parse_response sample_loads ''llama-guard3'' sample_text
     (JDict [(''response'', JStr ''not valid json'')]) =
   Inr \<lparr>matches = [], raw_response = Some (JDict [(''response'', JStr ''not valid json'')]),
         model_used = Some ''llama-guard3''\<rparr>"
  by (simp add: LlamaGuard_parse_response_def LlamaGuard_try_def sample_loads_def)

lemma OpenAIGuard_not_json:
  "OpenAIGuard_parse_response sample_loads sample_ge0 sample_fadd ''gpt-4o-mini'' sample_text
     (completion ''not valid json'') =
   Inr \<lparr>matches = [], raw_response = Some (JDict [(''content'', JStr ''not valid json'')]),
         model_used = Some ''gpt-4o-mini''\<rparr>"
  by (simp add: OpenAIGuard_parse_response_def OpenAIGuard_try_def OpenAIGuard_return_def
      first_content_def completion_def sample_loads_def)

text \<open>
  C3. The claim is that no payload makes a parser raise. On the code: when the local model
  answers with one JSON object instead of an array, the loop iterates over the keys of the
  dict, and \<^verbatim>\<open>item.get\<close> on a str raises \<^verbatim>\<open>AttributeError\<close>; when the hosted LLM's message
  has no content, \<^verbatim>\<open>json.loads(None)\<close> raises \<^verbatim>\<open>TypeError\<close>. Neither is caught.
\<close>

theorem C3_parsers_raise:
  "LlamaGuard_parse_response sample_loads ''llama-guard3'' sample_text
     (JDict [(''response'', JStr ''{\"type\": \"name\", \"value\": \"John Smith\"}'')])
     = Inl AttributeError \<and>
   OpenAIGuard_parse_response sample_loads sample_ge0 sample_fadd ''gpt-4o-mini'' sample_text
     \<lparr>choices = [\<lparr>message = \<lparr>content = None\<rparr>\<rparr>]\<rparr>
     = Inl TypeError"
  by (simp add: LlamaGuard_parse_response_def LlamaGuard_try_def sample_loads_def john_def
      LlamaGuard_item_def OpenAIGuard_parse_response_def OpenAIGuard_try_def
      first_content_def)

text \<open>
  C4. The claim is that a payload with one well-formed item and one item without
  \<^verbatim>\<open>value\<close> yields exactly one match. On the code of the local-model parser the second
  item defaults to the empty str, \<^verbatim>\<open>find\<close> returns \<open>0\<close> for it, and a second match with
  the empty value and the span \<open>(0, 0)\<close> is appended.
\<close>

theorem C4_llama_keeps_empty_value:
  "LlamaGuard_parse_response sample_loads ''llama-guard3'' sample_text
     (JDict [(''response'', JStr ''[{\"type\": \"name\", \"value\": \"John Smith\"}, {\"type\": \"email\"}]'')]) =
   Inr \<lparr>matches =
          [\<lparr>pii_type = NAME, pii_value = JStr ''John Smith'', pii_start = JInt 8,
            pii_end = JInt 18, confidence = 0.85\<rparr>,
           \<lparr>pii_type = EMAIL, pii_value = JStr [], pii_start = JInt 0,
            pii_end = JInt 0, confidence = 0.85\<rparr>],
        raw_response = Some (JDict [(''response'', JStr ''[{\"type\": \"name\", \"value\": \"John Smith\"}, {\"type\": \"email\"}]'')]),
        model_used = Some ''llama-guard3''\<rparr>"
  by (simp add: LlamaGuard_parse_response_def LlamaGuard_try_def sample_loads_def john_def
      LlamaGuard_item_def str_find_def sample_text_def lower_def lower_char_def
      LlamaGuard_type_map_def)

text \<open>The hosted-LLM parser does drop the item: it tests \<^verbatim>\<open>value\<close> before it appends.\<close>

lemma OpenAIGuard_item_empty_value:
  assumes "map_of kvs ''value'' = None \<or> map_of kvs ''value'' = Some (JStr [])"
  shows "OpenAIGuard_item ge0 fadd T (JDict kvs) \<noteq> Inr (Some m)"
  using assms
  by (auto simp: OpenAIGuard_item_def split: sum.splits json.splits if_splits)

text \<open>
  C9. The claim is that the items are taken from \<^verbatim>\<open>pii\<close>, else from \<^verbatim>\<open>results\<close>, else
  from the payload itself. On the code a payload that is itself the array raises
  \<^verbatim>\<open>AttributeError\<close>: \<^verbatim>\<open>content.get\<close> is called on a list before the fallback is used.
\<close>

theorem C9_top_level_array_raises:
  "OpenAIGuard_parse_response sample_loads sample_ge0 sample_fadd ''gpt-4o-mini'' sample_text
     (completion ''[{\"type\": \"name\", \"value\": \"John Smith\"}]'')
     = Inl AttributeError"
  by (simp add: OpenAIGuard_parse_response_def OpenAIGuard_try_def first_content_def
      completion_def sample_loads_def)

text \<open>The same item under \<^verbatim>\<open>pii\<close> is found, with the span that \<^verbatim>\<open>find\<close> computes.\<close>

lemma OpenAIGuard_pii_key:
  "OpenAIGuard_parse_response sample_loads sample_ge0 sample_fadd ''gpt-4o-mini'' sample_text
     (completion ''{\"pii\": [{\"type\": \"name\", \"value\": \"John Smith\"}]}'') =
   Inr \<lparr>matches =
          [\<lparr>pii_type = NAME, pii_value = JStr ''John Smith'', pii_start = JInt 8,
            pii_end = JInt 18, confidence = 0.90\<rparr>],
        raw_response = Some (JDict [(''content'',
          JStr ''{\"pii\": [{\"type\": \"name\", \"value\": \"John Smith\"}]}'')]),
        model_used = Some ''gpt-4o-mini''\<rparr>"
  by (simp add: OpenAIGuard_parse_response_def OpenAIGuard_try_def OpenAIGuard_return_def
      first_content_def completion_def sample_loads_def john_def OpenAIGuard_item_def
      str_find_def sample_text_def lower_def lower_char_def OpenAIGuard_type_map_def)

text \<open>The rest of the claim holds on the code, for a payload that is an object.\<close>

lemma OpenAIGuard_try_object:
  assumes "first_content response = Inr (Some s)" and "loads s = Inr (JDict ckvs)"
  shows "OpenAIGuard_try loads ge0 fadd T response =
     (case (case map_of ckvs ''pii'' of Some v \<Rightarrow> v
            | None \<Rightarrow> (case map_of ckvs ''results'' of Some v \<Rightarrow> v | None \<Rightarrow> JDict ckvs)) of
        JList items \<Rightarrow> run_items (OpenAIGuard_item ge0 fadd T) items []
      | _ \<Rightarrow> ([], None))"
  using assms by (simp add: OpenAIGuard_try_def)

lemma OpenAIGuard_item_offsets_supplied:
  assumes "map_of kvs ''value'' = Some (JStr V)" and "V \<noteq> []"
    and "OpenAIGuard_map_type (case map_of kvs ''type'' of Some x \<Rightarrow> x | None \<Rightarrow> JStr []) = Inr ptype"
    and "map_of kvs ''start'' = Some start" and "map_of kvs ''end'' = Some end_pos"
    and "py_ge0 ge0 start = Inr True"
  shows "OpenAIGuard_item ge0 fadd T (JDict kvs) =
     Inr (Some \<lparr>pii_type = ptype, pii_value = JStr V, pii_start = start, pii_end = end_pos,
                 confidence = 0.90\<rparr>)"
proof -
  obtain d where "py_add fadd start (int (length V)) = Inr d"
    using assms(6) by (cases start) auto
  with assms show ?thesis by (simp add: OpenAIGuard_item_def)
qed

lemma OpenAIGuard_item_offsets_absent:
  assumes "map_of kvs ''value'' = Some (JStr V)" and "V \<noteq> []"
    and "OpenAIGuard_map_type (case map_of kvs ''type'' of Some x \<Rightarrow> x | None \<Rightarrow> JStr []) = Inr ptype"
    and "map_of kvs ''start'' = None" and "map_of kvs ''end'' = None"
  shows "OpenAIGuard_item ge0 fadd T (JDict kvs) =
     (if str_find T V \<ge> 0
      then Inr (Some \<lparr>pii_type = ptype, pii_value = JStr V, pii_start = JInt (str_find T V),
                  pii_end = JInt (str_find T V + int (length V)), confidence = 0.90\<rparr>)
      else Inr None)"
  using assms by (simp add: OpenAIGuard_item_def)

section \<open>Type mapping\<close>

lemma map_of_default:
  "(case map_of tab k of Some t \<Rightarrow> t | None \<Rightarrow> d) = d" if "k \<notin> set (map fst tab)"
proof -
  from that have "map_of tab k = None"
    by (simp add: map_of_eq_None_iff)
  then show ?thesis by simp
qed

lemma lower_NAME: "lower ''NAME'' = ''name''"
  by code_simp

text \<open>
  C5, as stated, fails on the code: \<^verbatim>\<open>"NAME"\<close> is no key of the table of
  \<^verbatim>\<open>LlamaGuard._map_type\<close>, whose keys are in lower case, and it is mapped to \<^verbatim>\<open>NAME\<close>, not
  to \<^verbatim>\<open>CUSTOM\<close>, because the lookup key is \<^verbatim>\<open>type_str.lower()\<close>.
\<close>

theorem C5_counterexample:
  "''NAME'' \<notin> set (map fst LlamaGuard_type_map) \<and>
   LlamaGuard_map_type (JStr ''NAME'' :: real json) = Inr NAME \<and>
   LlamaGuard_map_type (JStr ''NAME'' :: real json) \<noteq> Inr CUSTOM"
  by (simp add: lower_NAME LlamaGuard_type_map_def)

text \<open>
  C5, amended. Every type-mapping function returns a category for every type string, and
  never an exception. A string whose lookup key is not in the table is mapped to
  \<^verbatim>\<open>CUSTOM\<close>; the lookup key is the lower-cased string in \<^verbatim>\<open>LlamaGuard._map_type\<close> and
  \<^verbatim>\<open>OpenAIGuard._map_type\<close>, and the string itself in \<^verbatim>\<open>BedrockGuard._map_bedrock_type\<close>
  and \<^verbatim>\<open>PresidioGuard._map_presidio_type\<close>. The defaults that stand for a missing type,
  the empty str and \<^verbatim>\<open>"UNKNOWN"\<close>, are mapped to \<^verbatim>\<open>CUSTOM\<close>.
\<close>

theorem C5_taxonomy_total:
  "(\<exists>c. LlamaGuard_map_type (JStr s :: 'f json) = Inr c) \<and>
   (lower s \<notin> set (map fst LlamaGuard_type_map) \<longrightarrow>
      LlamaGuard_map_type (JStr s :: 'f json) = Inr CUSTOM) \<and>
   (\<exists>c. OpenAIGuard_map_type (JStr s :: 'f json) = Inr c) \<and>
   (lower s \<notin> set (map fst OpenAIGuard_type_map) \<longrightarrow>
      OpenAIGuard_map_type (JStr s :: 'f json) = Inr CUSTOM) \<and>
   (\<exists>c. BedrockGuard_map_bedrock_type (JStr s :: 'f json) = Inr c) \<and>
   (s \<notin> set (map fst BedrockGuard_type_map) \<longrightarrow>
      BedrockGuard_map_bedrock_type (JStr s :: 'f json) = Inr CUSTOM) \<and>
   (\<exists>c. PresidioGuard_map_presidio_type (JStr s :: 'f json) = Inr c) \<and>
   (s \<notin> set (map fst PresidioGuard_type_map) \<longrightarrow>
      PresidioGuard_map_presidio_type (JStr s :: 'f json) = Inr CUSTOM) \<and>
   LlamaGuard_map_type (JStr [] :: 'f json) = Inr CUSTOM \<and>
   OpenAIGuard_map_type (JStr [] :: 'f json) = Inr CUSTOM \<and>
   BedrockGuard_map_bedrock_type (JStr ''UNKNOWN'' :: 'f json) = Inr CUSTOM"
proof -
  have "LlamaGuard_map_type (JStr [] :: 'f json) = Inr CUSTOM"
    by (simp add: lower_def LlamaGuard_type_map_def)
  moreover have "OpenAIGuard_map_type (JStr [] :: 'f json) = Inr CUSTOM"
    by (simp add: lower_def OpenAIGuard_type_map_def)
  moreover have "BedrockGuard_map_bedrock_type (JStr ''UNKNOWN'' :: 'f json) = Inr CUSTOM"
    by (simp add: BedrockGuard_type_map_def)
  ultimately show ?thesis
    by (simp add: map_of_default)
qed

theorem C5_witness:
  "lower ''passport'' \<notin> set (map fst LlamaGuard_type_map) \<and>
   LlamaGuard_map_type (JStr ''passport'' :: real json) = Inr CUSTOM \<and>
   ''name'' \<notin> set (map fst BedrockGuard_type_map) \<and>
   BedrockGuard_map_bedrock_type (JStr ''name'' :: real json) = Inr CUSTOM"
proof -
  have h1: "lower ''passport'' \<notin> set (map fst LlamaGuard_type_map)"
    by (simp add: lower_def lower_char_def LlamaGuard_type_map_def)
  have h2: "''name'' \<notin> set (map fst BedrockGuard_type_map)"
    by (simp add: BedrockGuard_type_map_def)
  from C5_taxonomy_total [of "''passport''", where 'f = real]
    C5_taxonomy_total [of "''name''", where 'f = real] h1 h2
  show ?thesis by blast
qed

text \<open>
  C7. Two type strings that differ in case only are mapped to the same category by
  \<^verbatim>\<open>LlamaGuard._map_type\<close> and by \<^verbatim>\<open>OpenAIGuard._map_type\<close>, so every case variant of a
  table key gets the category of the key. \<^verbatim>\<open>BedrockGuard._map_bedrock_type\<close> maps a string
  that differs from a table key in case only to \<^verbatim>\<open>CUSTOM\<close>.
\<close>

theorem C7_case_sensitivity:
  "(lower s = lower s' \<longrightarrow>
      LlamaGuard_map_type (JStr s :: 'f json) = LlamaGuard_map_type (JStr s' :: 'f json) \<and>
      OpenAIGuard_map_type (JStr s :: 'f json) = OpenAIGuard_map_type (JStr s' :: 'f json)) \<and>
   (map_of LlamaGuard_type_map k = Some c \<and> lower s = k \<longrightarrow>
      LlamaGuard_map_type (JStr s :: 'f json) = Inr c) \<and>
   (map_of OpenAIGuard_type_map k = Some c \<and> lower s = k \<longrightarrow>
      OpenAIGuard_map_type (JStr s :: 'f json) = Inr c) \<and>
   (b \<in> set (map fst BedrockGuard_type_map) \<and> lower s = lower b \<and> s \<noteq> b \<longrightarrow>
      BedrockGuard_map_bedrock_type (JStr s :: 'f json) = Inr CUSTOM)"
proof -
  have "BedrockGuard_map_bedrock_type (JStr s :: 'f json) = Inr CUSTOM"
    if b: "b \<in> set (map fst BedrockGuard_type_map)" and eq: "lower s = lower b" and ne: "s \<noteq> b"
  proof -
    have "distinct (map lower (map fst BedrockGuard_type_map))"
      by code_simp
    then have inj: "inj_on lower (set (map fst BedrockGuard_type_map))"
      by (simp only: distinct_map)
    have "s \<notin> set (map fst BedrockGuard_type_map)"
    proof
      assume "s \<in> set (map fst BedrockGuard_type_map)"
      with inj eq have "s = b" using b by (rule inj_onD)
      with ne show False by simp
    qed
    then show ?thesis by (simp add: map_of_default)
  qed
  then show ?thesis by auto
qed

lemma lower_Email: "lower ''Email'' = ''email''"
  by code_simp

lemma lower_EMAIL: "lower ''EMAIL'' = ''email''"
  by code_simp

theorem C7_witness:
  "LlamaGuard_map_type (JStr ''Email'' :: real json) = Inr EMAIL \<and>
   OpenAIGuard_map_type (JStr ''Email'' :: real json) = Inr EMAIL \<and>
   BedrockGuard_map_bedrock_type (JStr ''Email'' :: real json) = Inr CUSTOM \<and>
   BedrockGuard_map_bedrock_type (JStr ''EMAIL'' :: real json) = Inr EMAIL"
proof -
  have h1: "map_of LlamaGuard_type_map ''email'' = Some EMAIL \<and> lower ''Email'' = ''email''"
    by (simp add: lower_Email LlamaGuard_type_map_def)
  have h2: "map_of OpenAIGuard_type_map ''email'' = Some EMAIL \<and> lower ''Email'' = ''email''"
    by (simp add: lower_Email OpenAIGuard_type_map_def)
  have h3: "''EMAIL'' \<in> set (map fst BedrockGuard_type_map) \<and> lower ''Email'' = lower ''EMAIL''
      \<and> ''Email'' \<noteq> ''EMAIL''"
    by (simp add: lower_Email lower_EMAIL BedrockGuard_type_map_def)
  have h4: "BedrockGuard_map_bedrock_type (JStr ''EMAIL'' :: real json) = Inr EMAIL"
    by (simp add: BedrockGuard_type_map_def)
  from C7_case_sensitivity [of "''Email''" "''Email''" "''email''" EMAIL "''EMAIL''", where 'f = real]
    h1 h2 h3 h4
  show ?thesis by blast
qed

section \<open>The backend selector\<close>

lemma supported_repr:
  "list_repr (map fst providers) =
     ''['llama', 'llama-guard', 'bedrock', 'aws', 'presidio', 'openai', 'gpt']''"
  by (simp add: list_repr_def str_repr_def providers_def)

lemma get_guard_None_iff:
  "get_guard new_guard provider kwargs = Inr None \<longleftrightarrow>
     lower provider \<in> {''regex'', ''none'', []}"
  by (auto simp: get_guard_def Let_def split: option.splits sum.splits)

lemma get_guard_registered:
  assumes "map_of providers (lower provider) = Some cls"
  shows "get_guard new_guard provider kwargs =
     (case new_guard cls kwargs of Inl e \<Rightarrow> Inl e | Inr guard \<Rightarrow> Inr (Some guard))"
proof -
  from assms have "lower provider \<in> set (map fst providers)"
    by (metis map_of_eq_None_iff option.distinct(1) set_map)
  then have "lower provider \<notin> set [''regex'', ''none'', []]"
    by (auto simp: providers_def)
  with assms show ?thesis
    by (simp add: get_guard_def Let_def)
qed

lemma get_guard_unknown:
  assumes "lower provider \<notin> {''regex'', ''none'', []}"
    and "lower provider \<notin> set (map fst providers)"
  shows "get_guard new_guard provider kwargs =
     Inl (ValueError (''Unknown guard provider: '' @ lower provider @ ''. Supported: ''
            @ ''['llama', 'llama-guard', 'bedrock', 'aws', 'presidio', 'openai', 'gpt']''))"
proof -
  from assms(2) have "map_of providers (lower provider) = None"
    by (simp add: map_of_eq_None_iff)
  with assms(1) show ?thesis
    by (simp add: get_guard_def Let_def supported_repr)
qed

text \<open>
  C6. \<^verbatim>\<open>get_guard\<close> returns \<^verbatim>\<open>None\<close> exactly when the lower-cased identifier is
  \<^verbatim>\<open>"regex"\<close>, \<^verbatim>\<open>"none"\<close> or empty. For \<^verbatim>\<open>"llama"\<close> and \<^verbatim>\<open>"llama-guard"\<close> it is the call of
  one and the same constructor, \<^verbatim>\<open>LlamaGuard(**kwargs)\<close>; likewise \<^verbatim>\<open>"bedrock"\<close> and
  \<^verbatim>\<open>"aws"\<close> for \<^verbatim>\<open>BedrockGuard\<close>, \<^verbatim>\<open>"openai"\<close> and \<^verbatim>\<open>"gpt"\<close> for \<^verbatim>\<open>OpenAIGuard\<close>. For every
  other identifier it raises a \<^verbatim>\<open>ValueError\<close> whose message holds the identifier, in
  lower case, and the list of the seven registered identifiers; the value raised does not
  depend on the constructors, so none is called.
\<close>

theorem C6_backend_selector:
  "(get_guard new_guard provider kwargs = Inr None \<longleftrightarrow>
      lower provider \<in> {''regex'', ''none'', []}) \<and>
   (lower provider \<in> {''llama'', ''llama-guard''} \<longrightarrow>
      get_guard new_guard provider kwargs =
        (case new_guard LlamaGuard kwargs of Inl e \<Rightarrow> Inl e | Inr guard \<Rightarrow> Inr (Some guard))) \<and>
   (lower provider \<in> {''bedrock'', ''aws''} \<longrightarrow>
      get_guard new_guard provider kwargs =
        (case new_guard BedrockGuard kwargs of Inl e \<Rightarrow> Inl e | Inr guard \<Rightarrow> Inr (Some guard))) \<and>
   (lower provider \<in> {''openai'', ''gpt''} \<longrightarrow>
      get_guard new_guard provider kwargs =
        (case new_guard OpenAIGuard kwargs of Inl e \<Rightarrow> Inl e | Inr guard \<Rightarrow> Inr (Some guard))) \<and>
   (lower provider \<notin> {''regex'', ''none'', []} \<and>
    lower provider \<notin> set (map fst providers) \<longrightarrow>
      get_guard new_guard provider kwargs =
        Inl (ValueError (''Unknown guard provider: '' @ lower provider @ ''. Supported: ''
               @ ''['llama', 'llama-guard', 'bedrock', 'aws', 'presidio', 'openai', 'gpt']'')))"
proof -
  have llama: "get_guard new_guard provider kwargs =
      (case new_guard LlamaGuard kwargs of Inl e \<Rightarrow> Inl e | Inr guard \<Rightarrow> Inr (Some guard))"
    if "lower provider \<in> {''llama'', ''llama-guard''}"
  proof -
    from that have "map_of providers (lower provider) = Some LlamaGuard"
      by (auto simp: providers_def)
    then show ?thesis by (rule get_guard_registered)
  qed
  have bedrock: "get_guard new_guard provider kwargs =
      (case new_guard BedrockGuard kwargs of Inl e \<Rightarrow> Inl e | Inr guard \<Rightarrow> Inr (Some guard))"
    if "lower provider \<in> {''bedrock'', ''aws''}"
  proof -
    from that have "map_of providers (lower provider) = Some BedrockGuard"
      by (auto simp: providers_def)
    then show ?thesis by (rule get_guard_registered)
  qed
  have openai: "get_guard new_guard provider kwargs =
      (case new_guard OpenAIGuard kwargs of Inl e \<Rightarrow> Inl e | Inr guard \<Rightarrow> Inr (Some guard))"
    if "lower provider \<in> {''openai'', ''gpt''}"
  proof -
    from that have "map_of providers (lower provider) = Some OpenAIGuard"
      by (auto simp: providers_def)
    then show ?thesis by (rule get_guard_registered)
  qed
  have unknown: "get_guard new_guard provider kwargs =
      Inl (ValueError (''Unknown guard provider: '' @ lower provider @ ''. Supported: ''
             @ ''['llama', 'llama-guard', 'bedrock', 'aws', 'presidio', 'openai', 'gpt']''))"
    if "lower provider \<notin> {''regex'', ''none'', []} \<and>
      lower provider \<notin> set (map fst providers)"
  proof -
    from that have a: "lower provider \<notin> {''regex'', ''none'', []}"
      and b: "lower provider \<notin> set (map fst providers)"
      by (rule conjunct1, rule conjunct2)
    from a b show ?thesis by (rule get_guard_unknown)
  qed
  show ?thesis
    apply (intro conjI impI)
        apply (rule get_guard_None_iff)
       apply (erule llama)
      apply (erule bedrock)
     apply (erule openai)
    apply (erule unknown)
    done
qed

lemma lower_Llama_Guard: "lower ''Llama-Guard'' = ''llama-guard''"
  by code_simp

theorem C6_witness:
  "get_guard (\<lambda>cls (kw :: unit). Inr cls) ''regex'' () = Inr None \<and>
   get_guard (\<lambda>cls (kw :: unit). Inr cls) ''llama'' () = Inr (Some LlamaGuard) \<and>
   get_guard (\<lambda>cls (kw :: unit). Inr cls) ''Llama-Guard'' () = Inr (Some LlamaGuard) \<and>
   get_guard (\<lambda>cls (kw :: unit). Inr cls) ''nonexistent-provider'' () =
     (Inl (ValueError ''Unknown guard provider: nonexistent-provider. Supported: ['llama', 'llama-guard', 'bedrock', 'aws', 'presidio', 'openai', 'gpt']'')
       :: py_error + guard_class option)"
proof -
  have l1: "lower ''regex'' = ''regex''" and l2: "lower ''llama'' = ''llama''"
    and l3: "lower ''nonexistent-provider'' = ''nonexistent-provider''"
    by (simp_all add: lower_def lower_char_def)
  have h: "''nonexistent-provider'' \<notin> {''regex'', ''none'', []} \<and>
      ''nonexistent-provider'' \<notin> set (map fst providers)"
    by (simp add: providers_def)
  from C6_backend_selector [of "\<lambda>cls (kw :: unit). Inr cls" "''regex''" "()"]
    C6_backend_selector [of "\<lambda>cls (kw :: unit). Inr cls" "''llama''" "()"]
    C6_backend_selector [of "\<lambda>cls (kw :: unit). Inr cls" "''Llama-Guard''" "()"]
    C6_backend_selector [of "\<lambda>cls (kw :: unit). Inr cls" "''nonexistent-provider''" "()"]
    h
  show ?thesis
    by (simp add: l1 l2 l3 lower_Llama_Guard)
qed

section \<open>The managed-cloud parser\<close>

lemma py_for_invariant:
  assumes "py_for body xs s = Inr s'" and "P s"
    and "\<And>x t t'. x \<in> set xs \<Longrightarrow> P t \<Longrightarrow> body x t = Inr t' \<Longrightarrow> P t'"
  shows "P s'"
  using assms
proof (induction xs arbitrary: s)
  case Nil
  then show ?case by simp
next
  case (Cons x xs)
  from Cons.prems(1) obtain t where t: "body x s = Inr t" and rest: "py_for body xs t = Inr s'"
    by (auto split: sum.splits)
  have Pt: "P t"
    by (rule Cons.prems(3) [OF _ Cons.prems(2) t]) simp
  show ?case
  proof (rule Cons.IH [OF rest Pt])
    fix y u u'
    assume "y \<in> set xs" and u: "P u" and step: "body y u = Inr u'"
    then have "y \<in> set (x # xs)" by simp
    then show "P u'" using u step by (rule Cons.prems(3))
  qed
qed

lemma py_for_empty: "py_for body [] s = Inr s"
  by simp

text \<open>A missing key at any level of the nesting gives no entity there, and no exception.\<close>

lemma BedrockGuard_no_outputs:
  assumes "map_of r ''outputs'' = None"
  shows "BedrockGuard_parse_response T (JDict r) =
     Inr \<lparr>matches = [], raw_response = Some (JDict r),
           model_used = Some ''bedrock-guardrails''\<rparr>"
  using assms by (simp add: BedrockGuard_parse_response_def)

lemma BedrockGuard_no_assessments:
  assumes "map_of out ''assessments'' = None"
  shows "BedrockGuard_output (JDict out) ms = Inr ms"
  using assms by (simp add: BedrockGuard_output_def)

lemma BedrockGuard_no_policy:
  assumes "map_of a ''sensitiveInformationPolicy'' = None"
  shows "BedrockGuard_assessment (JDict a) ms = Inr ms"
  using assms by (simp add: BedrockGuard_assessment_def)

lemma BedrockGuard_no_entities:
  assumes "map_of a ''sensitiveInformationPolicy'' = Some (JDict si)"
    and "map_of si ''piiEntities'' = None"
  shows "BedrockGuard_assessment (JDict a) ms = Inr ms"
  using assms by (simp add: BedrockGuard_assessment_def)

text \<open>What one entity appends.\<close>

lemma BedrockGuard_entity_appends:
  assumes "BedrockGuard_entity entity ms = Inr ms'"
  shows "\<exists>kvs ptype. entity = JDict kvs \<and>
     ms' = ms @ [\<lparr>pii_type = ptype,
                   pii_value = (case map_of kvs ''match'' of Some v \<Rightarrow> v | None \<Rightarrow> JStr []),
                   pii_start = JInt 0, pii_end = JInt 0, confidence = 0.95\<rparr>]"
proof (cases entity)
  case (JDict kvs)
  with assms show ?thesis
    by (auto simp: BedrockGuard_entity_def split: sum.splits)
qed (use assms in \<open>simp_all add: BedrockGuard_entity_def\<close>)

lemma BedrockGuard_entity_shaped:
  assumes "BedrockGuard_entity entity ms = Inr ms'"
    and "\<forall>m \<in> set ms. no_span m"
  shows "\<forall>m \<in> set ms'. no_span m"
proof -
  from assms(1) obtain kvs ptype where
    "ms' = ms @ [\<lparr>pii_type = ptype,
                   pii_value = (case map_of kvs ''match'' of Some v \<Rightarrow> v | None \<Rightarrow> JStr []),
                   pii_start = JInt 0, pii_end = JInt 0, confidence = 0.95\<rparr>]"
    using BedrockGuard_entity_appends by blast
  with assms(2) show ?thesis by (simp add: no_span_def)
qed

lemma BedrockGuard_assessment_shaped:
  assumes "BedrockGuard_assessment assessment ms = Inr ms'"
    and "\<forall>m \<in> set ms. no_span m"
  shows "\<forall>m \<in> set ms'. no_span m"
proof -
  from assms(1) obtain entities where "py_for BedrockGuard_entity entities ms = Inr ms'"
    by (auto simp: BedrockGuard_assessment_def split: sum.splits)
  then show ?thesis using assms(2)
    by (rule py_for_invariant) (rule BedrockGuard_entity_shaped)
qed

lemma BedrockGuard_output_shaped:
  assumes "BedrockGuard_output output ms = Inr ms'"
    and "\<forall>m \<in> set ms. no_span m"
  shows "\<forall>m \<in> set ms'. no_span m"
proof -
  from assms(1) obtain items where "py_for BedrockGuard_assessment items ms = Inr ms'"
    by (auto simp: BedrockGuard_output_def split: sum.splits)
  then show ?thesis using assms(2)
    by (rule py_for_invariant) (rule BedrockGuard_assessment_shaped)
qed

lemma BedrockGuard_parse_shaped:
  assumes "BedrockGuard_parse_response T response = Inr r"
  shows "\<forall>m \<in> set (matches r). no_span m"
proof -
  from assms obtain os where run: "py_for BedrockGuard_output os [] = Inr (matches r)"
    by (auto simp: BedrockGuard_parse_response_def split: sum.splits)
  have "\<forall>m \<in> set ([] :: 'a PIIMatch list). no_span m" by simp
  with run show ?thesis
    by (rule py_for_invariant) (rule BedrockGuard_output_shaped)
qed

lemma py_for_collect:
  assumes "py_for body xs s = Inr s'"
    and "\<And>x t t'. x \<in> set xs \<Longrightarrow> body x t = Inr t' \<Longrightarrow> t' = t @ f x"
  shows "s' = s @ concat (map f xs)"
  using assms
proof (induction xs arbitrary: s)
  case Nil
  then show ?case by simp
next
  case (Cons x xs)
  from Cons.prems(1) obtain t where t: "body x s = Inr t" and rest: "py_for body xs t = Inr s'"
    by (auto split: sum.splits)
  have "t = s @ f x"
    by (rule Cons.prems(2) [OF _ t]) simp
  moreover have "s' = t @ concat (map f xs)"
  proof (rule Cons.IH [OF rest])
    fix y u u'
    assume "y \<in> set xs" and step: "body y u = Inr u'"
    then have "y \<in> set (x # xs)" by simp
    then show "u' = u @ f y" using step by (rule Cons.prems(2))
  qed
  ultimately show ?case by simp
qed

lemma py_for_returns:
  assumes "\<And>x t. x \<in> set xs \<Longrightarrow> body x t = Inr (t @ f x)"
  shows "py_for body xs s = Inr (s @ concat (map f xs))"
  using assms
proof (induction xs arbitrary: s)
  case Nil
  then show ?case by simp
next
  case (Cons x xs)
  have "body x s = Inr (s @ f x)"
    by (rule Cons.prems) simp
  moreover have "py_for body xs (s @ f x) = Inr ((s @ f x) @ concat (map f xs))"
  proof (rule Cons.IH)
    fix y u
    assume "y \<in> set xs"
    then have "y \<in> set (x # xs)" by simp
    then show "body y u = Inr (u @ f y)" by (rule Cons.prems)
  qed
  ultimately show ?case by simp
qed

text \<open>
  A loop whose body raises on every str runs to its end only over the elements of a list:
  iterating over a dict or a str yields strs.
\<close>

lemma py_iter_as_list:
  assumes "py_iter j = Inr xs" and "py_for body xs s = Inr s'"
    and "\<And>k t. \<exists>e. body (JStr k) t = Inl e"
  shows "xs = as_list j"
proof (cases j)
  case (JList ys)
  with assms(1) show ?thesis by simp
next
  case (JDict kvs)
  show ?thesis
  proof (cases kvs)
    case Nil
    with JDict assms(1) show ?thesis by auto
  next
    case (Cons kv rest)
    with JDict assms(1) obtain zs where "xs = JStr (fst kv) # zs" by auto
    moreover obtain e where "body (JStr (fst kv)) s = Inl e" using assms(3) by blast
    ultimately have "py_for body xs s = Inl e" by simp
    with assms(2) show ?thesis by simp
  qed
next
  case (JStr str)
  show ?thesis
  proof (cases str)
    case Nil
    with JStr assms(1) show ?thesis by auto
  next
    case (Cons c rest)
    with JStr assms(1) obtain zs where "xs = JStr [c] # zs" by auto
    moreover obtain e where "body (JStr [c]) s = Inl e" using assms(3) by blast
    ultimately have "py_for body xs s = Inl e" by simp
    with assms(2) show ?thesis by simp
  qed
qed (use assms(1) in simp_all)

lemma BedrockGuard_entity_match:
  assumes "BedrockGuard_entity entity ms = Inr ms'"
  shows "ms' = ms @ [entity_match entity]"
proof (cases entity)
  case (JDict kvs)
  with assms show ?thesis
    by (auto simp: BedrockGuard_entity_def entity_match_def field_or_def split: sum.splits)
qed (use assms in \<open>simp_all add: BedrockGuard_entity_def\<close>)

lemma BedrockGuard_entity_str: "\<exists>e. BedrockGuard_entity (JStr k) t = Inl e"
  by (simp add: BedrockGuard_entity_def)

lemma BedrockGuard_assessment_str: "\<exists>e. BedrockGuard_assessment (JStr k) t = Inl e"
  by (simp add: BedrockGuard_assessment_def)

lemma BedrockGuard_output_str: "\<exists>e. BedrockGuard_output (JStr k) t = Inl e"
  by (simp add: BedrockGuard_output_def)

lemma BedrockGuard_assessment_matches:
  assumes "BedrockGuard_assessment assessment ms = Inr ms'"
  shows "ms' = ms @ map entity_match (entities_of_assessment assessment)"
proof -
  from assms obtain kvs where a: "assessment = JDict kvs"
    by (cases assessment) (simp_all add: BedrockGuard_assessment_def)
  define sensitive_info where
    "sensitive_info = field_or kvs ''sensitiveInformationPolicy'' (JDict [])"
  from assms a obtain si where si: "sensitive_info = JDict si"
    by (cases sensitive_info)
      (simp_all add: BedrockGuard_assessment_def sensitive_info_def field_or_def)
  define pii_entities where "pii_entities = field_or si ''piiEntities'' (JList [])"
  from assms a si obtain entities where it: "py_iter pii_entities = Inr entities"
    and run: "py_for BedrockGuard_entity entities ms = Inr ms'"
    by (auto simp: BedrockGuard_assessment_def sensitive_info_def pii_entities_def field_or_def
        split: sum.splits)
  from it run have "entities = as_list pii_entities"
    by (rule py_iter_as_list) (rule BedrockGuard_entity_str)
  then have ents: "entities = entities_of_assessment assessment"
    using a si by (simp add: entities_of_assessment_def sensitive_info_def pii_entities_def)
  from run have "ms' = ms @ concat (map (\<lambda>e. [entity_match e]) entities)"
    by (rule py_for_collect) (rule BedrockGuard_entity_match)
  with ents show ?thesis by (simp add: concat_map_singleton)
qed

lemma BedrockGuard_output_matches:
  assumes "BedrockGuard_output output ms = Inr ms'"
  shows "ms' = ms @ map entity_match (entities_of_output output)"
proof -
  from assms obtain kvs where out: "output = JDict kvs"
    by (cases "output") (simp_all add: BedrockGuard_output_def)
  define assessments where "assessments = field_or kvs ''assessments'' (JList [])"
  from assms out obtain items where it: "py_iter assessments = Inr items"
    and run: "py_for BedrockGuard_assessment items ms = Inr ms'"
    by (auto simp: BedrockGuard_output_def assessments_def field_or_def split: sum.splits)
  from it run have "items = as_list assessments"
    by (rule py_iter_as_list) (rule BedrockGuard_assessment_str)
  then have items: "items = as_list (field_or (as_dict output) ''assessments'' (JList []))"
    using out by (simp add: assessments_def)
  from run have "ms' = ms @ concat (map (\<lambda>a. map entity_match (entities_of_assessment a)) items)"
    by (rule py_for_collect) (rule BedrockGuard_assessment_matches)
  with items show ?thesis
    by (simp add: entities_of_output_def map_concat comp_def)
qed

lemma BedrockGuard_parse_matches:
  assumes "BedrockGuard_parse_response T response = Inr r"
  shows "r = \<lparr>matches = map entity_match (bedrock_entities response),
               raw_response = Some response, model_used = Some ''bedrock-guardrails''\<rparr>"
proof -
  from assms obtain kvs where resp: "response = JDict kvs"
    by (cases response) (simp_all add: BedrockGuard_parse_response_def)
  define outputs where "outputs = field_or kvs ''outputs'' (JList [])"
  from assms resp obtain os ms where it: "py_iter outputs = Inr os"
    and run: "py_for BedrockGuard_output os [] = Inr ms"
    and r: "r = \<lparr>matches = ms, raw_response = Some response,
                   model_used = Some ''bedrock-guardrails''\<rparr>"
    by (auto simp: BedrockGuard_parse_response_def outputs_def field_or_def split: sum.splits)
  from it run have "os = as_list outputs"
    by (rule py_iter_as_list) (rule BedrockGuard_output_str)
  then have os: "os = as_list (field_or (as_dict response) ''outputs'' (JList []))"
    using resp by (simp add: outputs_def)
  from run have "ms = [] @ concat (map (\<lambda>out. map entity_match (entities_of_output out)) os)"
    by (rule py_for_collect) (rule BedrockGuard_output_matches)
  with os have "ms = map entity_match (bedrock_entities response)"
    by (simp add: bedrock_entities_def map_concat comp_def)
  with r show ?thesis by simp
qed

lemma py_for_total:
  assumes "\<And>x t. x \<in> set xs \<Longrightarrow> \<exists>t'. body x t = Inr t'"
  shows "\<exists>s'. py_for body xs s = Inr s'"
  using assms
proof (induction xs arbitrary: s)
  case Nil
  then show ?case by simp
next
  case (Cons x xs)
  have "\<exists>t. body x s = Inr t"
    by (rule Cons.prems) simp
  then obtain t where t: "body x s = Inr t" ..
  have "\<exists>s'. py_for body xs t = Inr s'"
  proof (rule Cons.IH)
    fix y u
    assume "y \<in> set xs"
    then have "y \<in> set (x # xs)" by simp
    then show "\<exists>u'. body y u = Inr u'" by (rule Cons.prems)
  qed
  with t show ?case by simp
qed

lemma listed_cases:
  assumes "listed ok v"
  shows "v = None \<or> (\<exists>xs. v = Some (JList xs) \<and> list_all ok xs)"
  using assms by (cases "(ok, v)" rule: listed.cases) simp_all

lemma BedrockGuard_entity_returns:
  assumes "entity_ok entity"
  shows "\<exists>ms'. BedrockGuard_entity entity ms = Inr ms'"
proof (cases entity)
  case (JDict kvs)
  with assms have "hashable (field_or kvs ''type'' (JStr ''UNKNOWN''))" by simp
  then have "\<exists>t. BedrockGuard_map_bedrock_type (field_or kvs ''type'' (JStr ''UNKNOWN'')) = Inr t"
    by (cases "field_or kvs ''type'' (JStr ''UNKNOWN'')") simp_all
  with JDict show ?thesis
    by (auto simp: BedrockGuard_entity_def field_or_def)
qed (use assms in simp_all)

lemma BedrockGuard_entities_return:
  assumes "listed entity_ok v"
  shows "\<exists>entities ms'.
     py_iter (case v of Some x \<Rightarrow> x | None \<Rightarrow> JList []) = Inr entities \<and>
     py_for BedrockGuard_entity entities ms = Inr ms'"
proof -
  from listed_cases [OF assms] show ?thesis
  proof
    assume "v = None"
    then show ?thesis by simp
  next
    assume "\<exists>xs. v = Some (JList xs) \<and> list_all entity_ok xs"
    then obtain xs where v: "v = Some (JList xs)" and ok: "list_all entity_ok xs" by blast
    have "\<exists>ms'. py_for BedrockGuard_entity xs ms = Inr ms'"
    proof (rule py_for_total)
      fix x t
      assume "x \<in> set xs"
      with ok have "entity_ok x" by (simp add: list_all_iff)
      then show "\<exists>t'. BedrockGuard_entity x t = Inr t'" by (rule BedrockGuard_entity_returns)
    qed
    with v show ?thesis by simp
  qed
qed

lemma BedrockGuard_assessment_returns:
  assumes "assessment_ok assessment"
  shows "\<exists>ms'. BedrockGuard_assessment assessment ms = Inr ms'"
proof (cases assessment)
  case (JDict kvs)
  with assms have pol: "policy_ok (map_of kvs ''sensitiveInformationPolicy'')" by simp
  show ?thesis
  proof (cases "map_of kvs ''sensitiveInformationPolicy''")
    case None
    with JDict show ?thesis by (simp add: BedrockGuard_assessment_def)
  next
    case (Some p)
    with pol obtain si where p: "p = JDict si"
      and ents: "listed entity_ok (map_of si ''piiEntities'')"
      by (cases p) simp_all
    from BedrockGuard_entities_return [OF ents, of ms] obtain entities ms' where
      "py_iter (case map_of si ''piiEntities'' of Some x \<Rightarrow> x | None \<Rightarrow> JList []) = Inr entities"
      and "py_for BedrockGuard_entity entities ms = Inr ms'" by blast
    with JDict Some p show ?thesis by (simp add: BedrockGuard_assessment_def)
  qed
qed (use assms in simp_all)

lemma BedrockGuard_output_returns:
  assumes "output_ok outp"
  shows "\<exists>ms'. BedrockGuard_output outp ms = Inr ms'"
proof (cases outp)
  case (JDict kvs)
  with assms have "listed assessment_ok (map_of kvs ''assessments'')" by simp
  from listed_cases [OF this] show ?thesis
  proof
    assume "map_of kvs ''assessments'' = None"
    with JDict show ?thesis by (simp add: BedrockGuard_output_def)
  next
    assume "\<exists>xs. map_of kvs ''assessments'' = Some (JList xs) \<and> list_all assessment_ok xs"
    then obtain xs where v: "map_of kvs ''assessments'' = Some (JList xs)"
      and ok: "list_all assessment_ok xs" by blast
    have "\<exists>ms'. py_for BedrockGuard_assessment xs ms = Inr ms'"
    proof (rule py_for_total)
      fix x t
      assume "x \<in> set xs"
      with ok have "assessment_ok x" by (simp add: list_all_iff)
      then show "\<exists>t'. BedrockGuard_assessment x t = Inr t'"
        by (rule BedrockGuard_assessment_returns)
    qed
    with JDict v show ?thesis by (auto simp: BedrockGuard_output_def)
  qed
qed (use assms in simp_all)

lemma BedrockGuard_parse_returns:
  assumes "response_ok response"
  shows "\<exists>r. BedrockGuard_parse_response T response = Inr r"
proof (cases response)
  case (JDict kvs)
  with assms have "listed output_ok (map_of kvs ''outputs'')" by simp
  from listed_cases [OF this] show ?thesis
  proof
    assume "map_of kvs ''outputs'' = None"
    with JDict show ?thesis by (simp add: BedrockGuard_parse_response_def)
  next
    assume "\<exists>xs. map_of kvs ''outputs'' = Some (JList xs) \<and> list_all output_ok xs"
    then obtain xs where v: "map_of kvs ''outputs'' = Some (JList xs)"
      and ok: "list_all output_ok xs" by blast
    have "\<exists>ms'. py_for BedrockGuard_output xs [] = Inr ms'"
    proof (rule py_for_total)
      fix x t
      assume "x \<in> set xs"
      with ok have "output_ok x" by (simp add: list_all_iff)
      then show "\<exists>t'. BedrockGuard_output x t = Inr t'"
        by (rule BedrockGuard_output_returns)
    qed
    with JDict v show ?thesis by (auto simp: BedrockGuard_parse_response_def)
  qed
qed (use assms in simp_all)

text \<open>On a payload of the documented shape the parser returns the matches of its entities.\<close>

lemma BedrockGuard_parse_ok:
  assumes "response_ok response"
  shows "BedrockGuard_parse_response T response =
     Inr \<lparr>matches = map entity_match (bedrock_entities response),
           raw_response = Some response, model_used = Some ''bedrock-guardrails''\<rparr>"
proof -
  from BedrockGuard_parse_returns [OF assms] obtain r where
    r: "BedrockGuard_parse_response T response = Inr r" ..
  from BedrockGuard_parse_matches [OF r] r show ?thesis by simp
qed

lemma no_span_entity_match: "no_span (entity_match entity)"
  by (simp add: no_span_def entity_match_def)

lemma bedrock_entities_of_list:
  "bedrock_entities (JDict [(''outputs'', JList outs)]) = concat (map entities_of_output outs)"
  by (simp add: bedrock_entities_def field_or_def)

lemma entities_of_output_of_list:
  "entities_of_output (JDict [(''assessments'', JList items)])
     = concat (map entities_of_assessment items)"
  by (simp add: entities_of_output_def field_or_def)

lemma missing_assessments: "map_of kvs ''assessments'' = None \<Longrightarrow> entities_of_output (JDict kvs) = []"
  by (simp add: entities_of_output_def field_or_def)

lemma missing_policy:
  "map_of kvs ''sensitiveInformationPolicy'' = None \<Longrightarrow> entities_of_assessment (JDict kvs) = []"
  by (simp add: entities_of_assessment_def field_or_def)

lemma missing_entities:
  "map_of kvs ''sensitiveInformationPolicy'' = Some (JDict si) \<Longrightarrow> map_of si ''piiEntities'' = None
     \<Longrightarrow> entities_of_assessment (JDict kvs) = []"
  by (simp add: entities_of_assessment_def field_or_def)

text \<open>
  C8. \<^verbatim>\<open>BedrockGuard._parse_response\<close> walks the payload as the spec says. Whenever it
  returns, and it does on every payload of the documented shape with any of the four keys
  missing, the matches of its result are those of the entities of the payload, in order:
  one match for each entity, with the value that the entity holds under \<^verbatim>\<open>match\<close> (the
  empty str when it holds nothing) and the span \<open>(0, 0)\<close>. A payload without \<^verbatim>\<open>outputs\<close>
  gives no match; an output without \<^verbatim>\<open>assessments\<close>, an assessment without
  \<^verbatim>\<open>sensitiveInformationPolicy\<close> and a policy without \<^verbatim>\<open>piiEntities\<close> add no match to
  those of the outputs and assessments around them, and raise nothing. The text is not
  read.
\<close>

theorem C8_bedrock_parser:
  "(response_ok response \<longrightarrow>
      BedrockGuard_parse_response T response =
        Inr \<lparr>matches = map entity_match (bedrock_entities response),
              raw_response = Some response, model_used = Some ''bedrock-guardrails''\<rparr>) \<and>
   (BedrockGuard_parse_response T response = Inr res \<longrightarrow>
      matches res = map entity_match (bedrock_entities response) \<and>
      (\<forall>m \<in> set (matches res). no_span m)) \<and>
   (map_of kvs ''outputs'' = None \<longrightarrow>
      BedrockGuard_parse_response T (JDict kvs) =
        Inr \<lparr>matches = [], raw_response = Some (JDict kvs),
              model_used = Some ''bedrock-guardrails''\<rparr>) \<and>
   (map_of kvs ''assessments'' = None \<and> list_all output_ok (xs @ ys) \<longrightarrow>
      BedrockGuard_parse_response T (JDict [(''outputs'', JList (xs @ JDict kvs # ys))]) =
        Inr \<lparr>matches = map entity_match (concat (map entities_of_output (xs @ ys))),
              raw_response = Some (JDict [(''outputs'', JList (xs @ JDict kvs # ys))]),
              model_used = Some ''bedrock-guardrails''\<rparr>) \<and>
   ((map_of kvs ''sensitiveInformationPolicy'' = None \<or>
     (\<exists>si. map_of kvs ''sensitiveInformationPolicy'' = Some (JDict si) \<and>
           map_of si ''piiEntities'' = None)) \<and>
    list_all assessment_ok (xs @ ys) \<longrightarrow>
      BedrockGuard_parse_response T
        (JDict [(''outputs'', JList [JDict [(''assessments'', JList (xs @ JDict kvs # ys))]])]) =
        Inr \<lparr>matches = map entity_match (concat (map entities_of_assessment (xs @ ys))),
              raw_response = Some
                (JDict [(''outputs'', JList [JDict [(''assessments'', JList (xs @ JDict kvs # ys))]])]),
              model_used = Some ''bedrock-guardrails''\<rparr>) \<and>
   pii_value (entity_match (JDict kvs)) = (case map_of kvs ''match'' of Some v \<Rightarrow> v | None \<Rightarrow> JStr []) \<and>
   pii_start (entity_match entity) = JInt 0 \<and> pii_end (entity_match entity) = JInt 0 \<and>
   BedrockGuard_parse_response T response = BedrockGuard_parse_response T' response"
proof -
  have returned: "matches res = map entity_match (bedrock_entities response) \<and>
      (\<forall>m \<in> set (matches res). no_span m)"
    if "BedrockGuard_parse_response T response = Inr res"
  proof -
    from BedrockGuard_parse_matches [OF that]
    have "matches res = map entity_match (bedrock_entities response)" by simp
    then show ?thesis by (simp add: no_span_entity_match)
  qed
  have no_outputs: "BedrockGuard_parse_response T (JDict kvs) =
        Inr \<lparr>matches = [], raw_response = Some (JDict kvs),
              model_used = Some ''bedrock-guardrails''\<rparr>"
    if "map_of kvs ''outputs'' = None"
    using that by (simp add: BedrockGuard_parse_response_def)
  have no_assessments:
    "BedrockGuard_parse_response T (JDict [(''outputs'', JList (xs @ JDict kvs # ys))]) =
        Inr \<lparr>matches = map entity_match (concat (map entities_of_output (xs @ ys))),
              raw_response = Some (JDict [(''outputs'', JList (xs @ JDict kvs # ys))]),
              model_used = Some ''bedrock-guardrails''\<rparr>"
    if "map_of kvs ''assessments'' = None \<and> list_all output_ok (xs @ ys)"
  proof -
    from that have "response_ok (JDict [(''outputs'', JList (xs @ JDict kvs # ys))])"
      by simp
    from BedrockGuard_parse_ok [OF this, of T] that show ?thesis
      by (simp add: bedrock_entities_of_list missing_assessments)
  qed
  have no_policy:
    "BedrockGuard_parse_response T
        (JDict [(''outputs'', JList [JDict [(''assessments'', JList (xs @ JDict kvs # ys))]])]) =
        Inr \<lparr>matches = map entity_match (concat (map entities_of_assessment (xs @ ys))),
              raw_response = Some
                (JDict [(''outputs'', JList [JDict [(''assessments'', JList (xs @ JDict kvs # ys))]])]),
              model_used = Some ''bedrock-guardrails''\<rparr>"
    if "(map_of kvs ''sensitiveInformationPolicy'' = None \<or>
     (\<exists>si. map_of kvs ''sensitiveInformationPolicy'' = Some (JDict si) \<and>
           map_of si ''piiEntities'' = None)) \<and>
    list_all assessment_ok (xs @ ys)"
  proof -
    from that have none: "entities_of_assessment (JDict kvs) = []"
      by (auto simp: missing_policy missing_entities)
    from that have "assessment_ok (JDict kvs)" by auto
    with that have
      "response_ok (JDict [(''outputs'', JList [JDict [(''assessments'', JList (xs @ JDict kvs # ys))]])])"
      by simp
    from BedrockGuard_parse_ok [OF this, of T] none show ?thesis
      by (simp add: bedrock_entities_of_list entities_of_output_of_list)
  qed
  have val: "pii_value (entity_match (JDict kvs))
      = (case map_of kvs ''match'' of Some v \<Rightarrow> v | None \<Rightarrow> JStr [])"
    by (simp add: entity_match_def field_or_def)
  have span: "pii_start (entity_match entity) = JInt 0" "pii_end (entity_match entity) = JInt 0"
    by (simp_all add: entity_match_def)
  have text_free: "BedrockGuard_parse_response T response = BedrockGuard_parse_response T' response"
    by (simp add: BedrockGuard_parse_response_def)
  show ?thesis
    apply (intro conjI impI)
            apply (erule BedrockGuard_parse_ok)
           apply (erule returned [THEN conjunct1])
          apply (erule returned [THEN conjunct2])
         apply (erule no_outputs)
        apply (erule no_assessments)
       apply (erule no_policy)
      apply (rule val)
     apply (rule span)+
    apply (rule text_free)
    done
qed

lemma bedrock_sample_ok: "response_ok bedrock_sample"
  by (simp add: bedrock_sample_def field_or_def)

lemma bedrock_sample_entities:
  "map entity_match (bedrock_entities bedrock_sample) =
     [\<lparr>pii_type = EMAIL, pii_value = JStr ''john@example.com'', pii_start = JInt 0,
       pii_end = JInt 0, confidence = 0.95\<rparr>,
      \<lparr>pii_type = CUSTOM, pii_value = JStr [], pii_start = JInt 0,
       pii_end = JInt 0, confidence = 0.95\<rparr>]"
  by (simp add: bedrock_sample_def bedrock_entities_def entities_of_output_def
      entities_of_assessment_def entity_match_def field_or_def BedrockGuard_type_map_def)

theorem C8_witness:
  "response_ok bedrock_sample \<and>
   BedrockGuard_parse_response sample_text bedrock_sample =
     Inr \<lparr>matches =
            [\<lparr>pii_type = EMAIL, pii_value = JStr ''john@example.com'', pii_start = JInt 0,
              pii_end = JInt 0, confidence = 0.95\<rparr>,
             \<lparr>pii_type = CUSTOM, pii_value = JStr [], pii_start = JInt 0,
              pii_end = JInt 0, confidence = 0.95\<rparr>],
           raw_response = Some bedrock_sample, model_used = Some ''bedrock-guardrails''\<rparr> \<and>
   BedrockGuard_parse_response sample_text bedrock_empty =
     Inr \<lparr>matches = [], raw_response = Some bedrock_empty,
           model_used = Some ''bedrock-guardrails''\<rparr> \<and>
   BedrockGuard_parse_response sample_text
     (JDict [(''outputs'', JList [JDict [(''usage'', JNull :: real json)]])]) =
     Inr \<lparr>matches = [],
           raw_response = Some (JDict [(''outputs'', JList [JDict [(''usage'', JNull)]])]),
           model_used = Some ''bedrock-guardrails''\<rparr> \<and>
   BedrockGuard_parse_response sample_text
     (JDict [(''outputs'', JList [JDict [(''assessments'',
        JList [JDict [(''usage'', JNull :: real json)]])]])]) =
     Inr \<lparr>matches = [],
           raw_response = Some (JDict [(''outputs'', JList [JDict [(''assessments'',
             JList [JDict [(''usage'', JNull)]])]])]),
           model_used = Some ''bedrock-guardrails''\<rparr>"
proof -
  note inst = C8_bedrock_parser [of bedrock_sample sample_text _ "[(''usage'', JNull)]" "[]" "[]"
      JNull sample_text]
  have ok: "response_ok bedrock_sample"
    by (simp add: bedrock_sample_def field_or_def)
  have ents: "map entity_match (bedrock_entities bedrock_sample) =
     [\<lparr>pii_type = EMAIL, pii_value = JStr ''john@example.com'', pii_start = JInt 0,
       pii_end = JInt 0, confidence = 0.95\<rparr>,
      \<lparr>pii_type = CUSTOM, pii_value = JStr [], pii_start = JInt 0,
       pii_end = JInt 0, confidence = 0.95\<rparr>]"
    by (simp add: bedrock_sample_def bedrock_entities_def entities_of_output_def
        entities_of_assessment_def entity_match_def field_or_def BedrockGuard_type_map_def)
  have h1: "map_of [(''usage'', JNull :: real json)] ''outputs'' = None" by simp
  have h2: "map_of [(''usage'', JNull :: real json)] ''assessments'' = None \<and>
      list_all output_ok ([] @ [] :: real json list)" by simp
  have h3: "(map_of [(''usage'', JNull :: real json)] ''sensitiveInformationPolicy'' = None \<or>
      (\<exists>si. map_of [(''usage'', JNull :: real json)] ''sensitiveInformationPolicy'' = Some (JDict si) \<and>
        map_of si ''piiEntities'' = None)) \<and>
      list_all assessment_ok ([] @ [] :: real json list)" by simp
  from inst ok have 1: "BedrockGuard_parse_response sample_text bedrock_sample =
     Inr \<lparr>matches = map entity_match (bedrock_entities bedrock_sample),
           raw_response = Some bedrock_sample, model_used = Some ''bedrock-guardrails''\<rparr>"
    by blast
  from inst h1 have 2: "BedrockGuard_parse_response sample_text (JDict [(''usage'', JNull)]) =
     Inr \<lparr>matches = [], raw_response = Some (JDict [(''usage'', JNull :: real json)]),
           model_used = Some ''bedrock-guardrails''\<rparr>"
    by blast
  from inst h2 have 3: "BedrockGuard_parse_response sample_text
     (JDict [(''outputs'', JList ([] @ JDict [(''usage'', JNull :: real json)] # []))]) =
     Inr \<lparr>matches = map entity_match (concat (map entities_of_output ([] @ []))),
           raw_response = Some (JDict [(''outputs'', JList ([] @ JDict [(''usage'', JNull)] # []))]),
           model_used = Some ''bedrock-guardrails''\<rparr>"
    by blast
  from inst h3 have 4: "BedrockGuard_parse_response sample_text
     (JDict [(''outputs'', JList [JDict [(''assessments'',
        JList ([] @ JDict [(''usage'', JNull :: real json)] # []))]])]) =
     Inr \<lparr>matches = map entity_match (concat (map entities_of_assessment ([] @ []))),
           raw_response = Some (JDict [(''outputs'', JList [JDict [(''assessments'',
             JList ([] @ JDict [(''usage'', JNull)] # []))]])]),
           model_used = Some ''bedrock-guardrails''\<rparr>"
    by blast
  from ok 1 2 3 4 show ?thesis
    by (simp add: ents bedrock_empty_def)
qed

lemma bedrock_sample_result:
  "BedrockGuard_parse_response sample_text bedrock_sample =
     Inr \<lparr>matches =
            [\<lparr>pii_type = EMAIL, pii_value = JStr ''john@example.com'', pii_start = JInt 0,
              pii_end = JInt 0, confidence = 0.95\<rparr>,
             \<lparr>pii_type = CUSTOM, pii_value = JStr [], pii_start = JInt 0,
              pii_end = JInt 0, confidence = 0.95\<rparr>],
           raw_response = Some bedrock_sample, model_used = Some ''bedrock-guardrails''\<rparr>"
  by (simp add: BedrockGuard_parse_response_def BedrockGuard_output_def
      BedrockGuard_assessment_def BedrockGuard_entity_def BedrockGuard_type_map_def
      bedrock_sample_def)

section \<open>Offsets in the payload of the local model\<close>

lemma map_of_strip:
  assumes "k \<noteq> ''start''" and "k \<noteq> ''end''"
  shows "map_of (filter (\<lambda>kv. fst kv \<noteq> ''start'' \<and> fst kv \<noteq> ''end'') kvs) k = map_of kvs k"
  using assms by (induction kvs) auto

lemma LlamaGuard_item_strip: "LlamaGuard_item T (strip_offsets item) = LlamaGuard_item T item"
proof (cases item)
  case (JDict kvs)
  have "map_of (filter (\<lambda>kv. fst kv \<noteq> ''start'' \<and> fst kv \<noteq> ''end'') kvs) ''type''
      = map_of kvs ''type''"
    by (rule map_of_strip) simp_all
  moreover have "map_of (filter (\<lambda>kv. fst kv \<noteq> ''start'' \<and> fst kv \<noteq> ''end'') kvs) ''value''
      = map_of kvs ''value''"
    by (rule map_of_strip) simp_all
  ultimately show ?thesis
    using JDict by (simp add: LlamaGuard_item_def split: sum.splits)
qed simp_all

lemma run_items_map: "run_items (\<lambda>x. body (g x)) xs ms = run_items body (map g xs) ms"
  by (induction xs arbitrary: ms) (auto split: sum.splits option.splits)

lemma run_items_strip:
  assumes "map strip_offsets xs = map strip_offsets ys"
  shows "run_items (LlamaGuard_item T) xs ms = run_items (LlamaGuard_item T) ys ms"
proof -
  have "run_items (LlamaGuard_item T) zs ms
      = run_items (LlamaGuard_item T) (map strip_offsets zs) ms" for zs :: "'a json list"
  proof -
    have "run_items (\<lambda>x. LlamaGuard_item T (strip_offsets x)) zs ms
        = run_items (LlamaGuard_item T) zs ms"
      by (simp add: LlamaGuard_item_strip)
    then show ?thesis by (simp only: run_items_map)
  qed
  from this [of xs] this [of ys] show ?thesis by (simp only: assms)
qed

lemma same_but_offsets_cases:
  assumes "same_but_offsets j1 j2"
  shows "(\<exists>xs ys. j1 = JList xs \<and> j2 = JList ys \<and> map strip_offsets xs = map strip_offsets ys)
    \<or> j1 = j2"
  using assms by (cases j1; cases j2) simp_all

lemma LlamaGuard_try_offsets:
  assumes "py_get response1 ''response'' (JStr ''[]'') = Inr (JStr c1)"
    and "py_get response2 ''response'' (JStr ''[]'') = Inr (JStr c2)"
    and "loads c1 = Inr j1" and "loads c2 = Inr j2"
    and "same_but_offsets j1 j2"
  shows "LlamaGuard_try loads T response1 = LlamaGuard_try loads T response2"
proof -
  have t: "LlamaGuard_try loads T response1 =
      (case py_iter j1 of Inl e \<Rightarrow> ([], Some e)
       | Inr items \<Rightarrow> run_items (LlamaGuard_item T) items [])"
    "LlamaGuard_try loads T response2 =
      (case py_iter j2 of Inl e \<Rightarrow> ([], Some e)
       | Inr items \<Rightarrow> run_items (LlamaGuard_item T) items [])"
    using assms(1-4) by (simp_all add: LlamaGuard_try_def)
  from same_but_offsets_cases [OF assms(5)] show ?thesis
  proof
    assume "\<exists>xs ys. j1 = JList xs \<and> j2 = JList ys \<and> map strip_offsets xs = map strip_offsets ys"
    then obtain xs ys where j: "j1 = JList xs" "j2 = JList ys"
      and eq: "map strip_offsets xs = map strip_offsets ys" by blast
    from eq have "run_items (LlamaGuard_item T) xs [] = run_items (LlamaGuard_item T) ys []"
      by (rule run_items_strip)
    with j t show ?thesis by simp
  next
    assume "j1 = j2"
    then show ?thesis using t by simp
  qed
qed

lemma LlamaGuard_outcome:
  "outcome (LlamaGuard_parse_response loads model T response) =
     (case LlamaGuard_try loads T response of
        (ms, Some e) \<Rightarrow> if caught e then Inr (ms, Some model) else Inl e
      | (ms, None) \<Rightarrow> Inr (ms, Some model))"
  by (simp add: outcome_def verdict_def LlamaGuard_parse_response_def
      split: prod.splits option.splits)

lemma LlamaGuard_item_searched:
  assumes "LlamaGuard_item T item = Inr (Some m)"
  shows "searched_span T m"
proof (cases item)
  case (JDict kvs)
  with assms show ?thesis
    by (auto simp: LlamaGuard_item_def Let_def searched_span_def
        split: sum.splits json.splits if_splits)
qed (use assms in \<open>simp_all add: LlamaGuard_item_def\<close>)

lemma LlamaGuard_try_searched:
  assumes "LlamaGuard_try loads T response = (ms, raised)"
  shows "\<forall>m \<in> set ms. searched_span T m"
proof (cases "\<exists>items. LlamaGuard_try loads T response = run_items (LlamaGuard_item T) items []")
  case True
  then obtain items where "run_items (LlamaGuard_item T) items [] = (ms, raised)"
    using assms by auto
  then show ?thesis
    by (rule run_items_invariant) (auto intro: LlamaGuard_item_searched)
next
  case False
  then have "fst (LlamaGuard_try loads T response) = []"
    by (auto simp: LlamaGuard_try_def split: sum.splits)
  with assms show ?thesis by simp
qed

text \<open>
  C10, as stated, fails on the code: the result holds the payload itself under
  \<^verbatim>\<open>raw_response\<close>, so two payloads that differ in the offsets of an item give two
  different results.
\<close>

theorem C10_counterexample:
  "same_but_offsets
     (JList [JDict [(''type'', JStr ''name''), (''value'', JStr ''John Smith''),
        (''start'', JInt 8), (''end'', JInt 18 :: real json)]])
     (JList [JDict [(''type'', JStr ''name''), (''value'', JStr ''John Smith''),
        (''start'', JInt 0), (''end'', JInt 4)]]) \<and>
   LlamaGuard_parse_response sample_loads ''llama-guard3'' sample_text
     (JDict [(''response'', JStr ''[{\"type\": \"name\", \"value\": \"John Smith\", \"start\": 8, \"end\": 18}]'')])
   \<noteq>
   LlamaGuard_parse_response sample_loads ''llama-guard3'' sample_text
     (JDict [(''response'', JStr ''[{\"type\": \"name\", \"value\": \"John Smith\", \"start\": 0, \"end\": 4}]'')])"
  by (simp add: LlamaGuard_parse_response_def LlamaGuard_try_def sample_loads_def
      LlamaGuard_item_def str_find_def sample_text_def lower_def lower_char_def
      LlamaGuard_type_map_def)

text \<open>
  C10, amended. Let two payloads of the local model decode to values that are the same
  but for the \<^verbatim>\<open>start\<close> and \<^verbatim>\<open>end\<close> entries of their items. Then
  \<^verbatim>\<open>LlamaGuard._parse_response\<close> raises the same exception on both, or returns results with
  the same matches and the same \<^verbatim>\<open>model_used\<close>; the results differ in \<^verbatim>\<open>raw_response\<close>
  only, which echoes the payload. Every match of a result has the span that \<^verbatim>\<open>find\<close>
  computes for its value, and the confidence 0.85.
\<close>

theorem C10_offsets_ignored:
  assumes "py_get response1 ''response'' (JStr ''[]'') = Inr (JStr c1)"
    and "py_get response2 ''response'' (JStr ''[]'') = Inr (JStr c2)"
    and "loads c1 = Inr j1" and "loads c2 = Inr j2"
    and "same_but_offsets j1 j2"
  shows "outcome (LlamaGuard_parse_response loads model T response1)
      = outcome (LlamaGuard_parse_response loads model T response2) \<and>
    (\<forall>r. LlamaGuard_parse_response loads model T response1 = Inr r \<longrightarrow>
       raw_response r = Some response1 \<and> (\<forall>m \<in> set (matches r). searched_span T m))"
proof -
  have "LlamaGuard_try loads T response1 = LlamaGuard_try loads T response2"
    using assms by (rule LlamaGuard_try_offsets)
  then have same: "outcome (LlamaGuard_parse_response loads model T response1)
      = outcome (LlamaGuard_parse_response loads model T response2)"
    by (simp only: LlamaGuard_outcome)
  have "raw_response r = Some response1 \<and> (\<forall>m \<in> set (matches r). searched_span T m)"
    if r: "LlamaGuard_parse_response loads model T response1 = Inr r" for r
  proof -
    obtain ms raised where tr: "LlamaGuard_try loads T response1 = (ms, raised)"
      by (cases "LlamaGuard_try loads T response1")
    then have "\<forall>m \<in> set ms. searched_span T m" by (rule LlamaGuard_try_searched)
    moreover have "matches r = ms"
      using LlamaGuard_parse_matches [OF r] tr by simp
    moreover have "raw_response r = Some response1"
      using r by (auto simp: LlamaGuard_parse_response_def split: prod.splits option.splits if_splits)
    ultimately show ?thesis by simp
  qed
  with same show ?thesis by blast
qed

theorem C10_witness:
  "outcome (LlamaGuard_parse_response sample_loads ''llama-guard3'' sample_text
     (JDict [(''response'', JStr ''[{\"type\": \"name\", \"value\": \"John Smith\", \"start\": 8, \"end\": 18}]'')]))
   = outcome (LlamaGuard_parse_response sample_loads ''llama-guard3'' sample_text
     (JDict [(''response'', JStr ''[{\"type\": \"name\", \"value\": \"John Smith\", \"start\": 0, \"end\": 4}]'')]))"
proof -
  have h1: "py_get (JDict [(''response'', JStr ''[{\"type\": \"name\", \"value\": \"John Smith\", \"start\": 8, \"end\": 18}]'')])
      ''response'' (JStr ''[]'')
      = Inr (JStr ''[{\"type\": \"name\", \"value\": \"John Smith\", \"start\": 8, \"end\": 18}]'' :: real json)"
    by simp
  have h2: "py_get (JDict [(''response'', JStr ''[{\"type\": \"name\", \"value\": \"John Smith\", \"start\": 0, \"end\": 4}]'')])
      ''response'' (JStr ''[]'')
      = Inr (JStr ''[{\"type\": \"name\", \"value\": \"John Smith\", \"start\": 0, \"end\": 4}]'' :: real json)"
    by simp
  have h3: "sample_loads ''[{\"type\": \"name\", \"value\": \"John Smith\", \"start\": 8, \"end\": 18}]''
      = Inr (JList [JDict [(''type'', JStr ''name''), (''value'', JStr ''John Smith''),
          (''start'', JInt 8), (''end'', JInt 18)]])"
    by (simp add: sample_loads_def)
  have h4: "sample_loads ''[{\"type\": \"name\", \"value\": \"John Smith\", \"start\": 0, \"end\": 4}]''
      = Inr (JList [JDict [(''type'', JStr ''name''), (''value'', JStr ''John Smith''),
          (''start'', JInt 0), (''end'', JInt 4)]])"
    by (simp add: sample_loads_def)
  have h5: "same_but_offsets
     (JList [JDict [(''type'', JStr ''name''), (''value'', JStr ''John Smith''),
        (''start'', JInt 8), (''end'', JInt 18 :: real json)]])
     (JList [JDict [(''type'', JStr ''name''), (''value'', JStr ''John Smith''),
        (''start'', JInt 0), (''end'', JInt 4)]])"
    by simp
  from C10_offsets_ignored [OF h1 h2 h3 h4 h5] show ?thesis by blast
qed

end
